theory Spec2Isabelle
  imports Main "HOL-Library.Multiset" "HOL-Library.Word"
begin

section \<open>Data model (models.py)\<close>

text \<open>
  Values of Python's dynamic type \<open>Any\<close> as they come out of \<open>json.loads\<close> and as they are
  stored in the metadata dictionary. A float is kept as the literal that denotes it: no
  function modelled here computes with one.
\<close>

datatype json =
    JNull
  | JBool bool
  | JInt int
  | JFloat string
  | JStr string
  | JList "json list"
  | JObj "(string \<times> json) list"

text \<open>\<open>class PageProcessingStatus(str, Enum)\<close>.\<close>

datatype PageProcessingStatus =
    SUCCESS
  | MOCK_SUCCESS
  | ERROR_API
  | ERROR_PARSING
  | ERROR_VALIDATION
  | ERROR_TIMEOUT
  | ERROR_IMAGE_ENCODING
  | ERROR_UNKNOWN

text \<open>
  The field \<open>data: Optional[Union[Dict[str, Any], str]]\<close> of \<open>PageProcessingResult\<close>: a
  payload is a dictionary or a string, and \<open>None\<close> is the absent payload.
\<close>

datatype payload = PDict "(string \<times> json) list" | PStr string

record PageProcessingResult =
  page_number :: int
  status :: PageProcessingStatus
  data :: "payload option"
  error_message :: "string option"
  raw_response :: "string option"
  processed_at :: string

text \<open>
  The dictionary \<open>processing_summary\<close> built by the aggregator, one field per key. The three
  timing entries are read from the clock and rounded in floating point; they are carried as
  the strings the caller of the model supplies.
\<close>

record clock_readings =
  aggregation_timestamp_now :: string
  total_processing_time :: string
  aggregation_time :: string

record processing_summary =
  document_name :: string
  source_total_pages :: json
  processed_pages_count :: nat
  successful_pages_count :: nat
  mock_pages_count :: nat
  pages_with_errors_count :: nat
  processing_prompt_used_snippet :: string
  aggregation_timestamp :: string
  total_processing_time_seconds :: string
  aggregation_time_seconds :: string
  pdf_metadata :: "string \<rightharpoonup> json"

record AggregatedResult =
  job_id :: string
  summary :: processing_summary
  pages :: "PageProcessingResult list"

section \<open>Result aggregator (result\_aggregator.py)\<close>

text \<open>
  The counting loop of \<open>aggregate_processing_results\<close>: the four counters
  \<open>(processed_pages, successful_pages, mock_pages, pages_with_errors)\<close> are the loop state.
\<close>

type_synonym counters = "nat \<times> nat \<times> nat \<times> nat"

fun count_result :: "counters \<Rightarrow> PageProcessingResult \<Rightarrow> counters" where
  "count_result (processed_pages, successful_pages, mock_pages, pages_with_errors) result =
     (if status result = SUCCESS then
        (processed_pages + 1, successful_pages + 1, mock_pages, pages_with_errors)
      else if status result = MOCK_SUCCESS then
        (processed_pages + 1, successful_pages + 1, mock_pages + 1, pages_with_errors)
      else
        (processed_pages + 1, successful_pages, mock_pages, pages_with_errors + 1))"

fun count_results :: "counters \<Rightarrow> PageProcessingResult list \<Rightarrow> counters" where
  "count_results c [] = c"
| "count_results c (result # rest) = count_results (count_result c result) rest"

text \<open>
  \<open>user_prompt[:200] + "..." if len(user_prompt) > 200 else user_prompt\<close>: the conditional
  expression binds weaker than \<open>+\<close>, so the dots belong to the truncated branch.
\<close>

definition prompt_snippet :: "string \<Rightarrow> string" where
  "prompt_snippet user_prompt =
     (if length user_prompt > 200 then take 200 user_prompt @ ''...'' else user_prompt)"

text \<open>
  \<open>sorted(page_results, key=lambda p: p.page_number)\<close> is a stable sort on the key, as
  \<^const>\<open>sort_key\<close> is.
\<close>

definition aggregate_processing_results ::
  "string \<Rightarrow> string \<Rightarrow> PageProcessingResult list \<Rightarrow> (string \<rightharpoonup> json) \<Rightarrow> string \<Rightarrow>
   clock_readings \<Rightarrow> AggregatedResult" where
  "aggregate_processing_results jid doc_name page_results metadata user_prompt clock =
     (let total_pages = length page_results;
          reported_total_pages =
            (case metadata ''pages'' of Some v \<Rightarrow> v | None \<Rightarrow> JInt (int total_pages));
          (processed_pages, successful_pages, mock_pages, pages_with_errors) =
            count_results (0, 0, 0, 0) page_results;
          the_summary = \<lparr>
            document_name = doc_name,
            source_total_pages = reported_total_pages,
            processed_pages_count = processed_pages,
            successful_pages_count = successful_pages,
            mock_pages_count = mock_pages,
            pages_with_errors_count = pages_with_errors,
            processing_prompt_used_snippet = prompt_snippet user_prompt,
            aggregation_timestamp = aggregation_timestamp_now clock,
            total_processing_time_seconds = total_processing_time clock,
            aggregation_time_seconds = aggregation_time clock,
            pdf_metadata = metadata \<rparr>;
          sorted_page_results = sort_key page_number page_results
      in \<lparr> job_id = jid, summary = the_summary, pages = sorted_page_results \<rparr>)"

section \<open>Python strings and paths\<close>

text \<open>
  \<open>str.isspace\<close> on the code points below 256, which is what a \<^typ>\<open>char\<close> holds.
\<close>

definition py_isspace :: "char \<Rightarrow> bool" where
  "py_isspace c =
     (let n = (of_char c :: nat)
      in (9 \<le> n \<and> n \<le> 13) \<or> (28 \<le> n \<and> n \<le> 32) \<or> n = 133 \<or> n = 160)"

definition py_strip :: "string \<Rightarrow> string" where
  "py_strip s = rev (dropWhile py_isspace (rev (dropWhile py_isspace s)))"

definition startswith :: "string \<Rightarrow> string \<Rightarrow> bool" where
  "startswith s p = (take (length p) s = p)"

definition endswith :: "string \<Rightarrow> string \<Rightarrow> bool" where
  "endswith s p = (length p \<le> length s \<and> drop (length s - length p) s = p)"

text \<open>The substring test \<open>p in s\<close>.\<close>

fun py_contains :: "string \<Rightarrow> string \<Rightarrow> bool" where
  "py_contains p [] = (p = [])"
| "py_contains p (c # cs) = (startswith (c # cs) p \<or> py_contains p cs)"

text \<open>Truthiness of an \<open>Optional[str]\<close>: \<open>None\<close> and the empty string are false.\<close>

definition truthy :: "string option \<Rightarrow> bool" where
  "truthy v = (case v of None \<Rightarrow> False | Some t \<Rightarrow> t \<noteq> [])"

text \<open>What an f-string writes for an \<open>Optional[str]\<close>.\<close>

definition fmt_opt :: "string option \<Rightarrow> string" where
  "fmt_opt v = (case v of None \<Rightarrow> ''None'' | Some t \<Rightarrow> t)"

definition nl :: string where
  "nl = [CHR 0x0A]"

definition sq :: string where
  "sq = [CHR 0x27]"

definition digit_char :: "nat \<Rightarrow> char" where
  "digit_char d = ''0123456789'' ! d"

fun str_nat :: "nat \<Rightarrow> string" where
  "str_nat n = (if n < 10 then [digit_char n] else str_nat (n div 10) @ [digit_char (n mod 10)])"

declare str_nat.simps [simp del]

definition str_int :: "int \<Rightarrow> string" where
  "str_int i = (if i < 0 then ''-'' @ str_nat (nat (- i)) else str_nat (nat i))"

definition py_lower_char :: "char \<Rightarrow> char" where
  "py_lower_char c =
     (let n = (of_char c :: nat)
      in if (65 \<le> n \<and> n \<le> 90) \<or> (192 \<le> n \<and> n \<le> 222 \<and> n \<noteq> 215)
         then char_of (n + 32) else c)"

definition py_lower :: "string \<Rightarrow> string" where
  "py_lower s = map py_lower_char s"

text \<open>
  A \<open>pathlib.Path\<close> is the list of its components. \<open>name\<close>, \<open>stem\<close> and \<open>suffix\<close> split
  the last component at its last dot, when that dot is neither the first nor the last
  character.
\<close>

type_synonym path = "string list"

definition path_name :: "path \<Rightarrow> string" where
  "path_name p = (if p = [] then [] else last p)"

definition rfind_dot :: "string \<Rightarrow> nat option" where
  "rfind_dot name =
     (let k = length (takeWhile (\<lambda>c. c \<noteq> CHR ''.'') (rev name))
      in if k = length name then None else Some (length name - 1 - k))"

definition path_stem :: "path \<Rightarrow> string" where
  "path_stem p =
     (let name = path_name p
      in case rfind_dot name of
           None \<Rightarrow> name
         | Some i \<Rightarrow> if 0 < i \<and> i < length name - 1 then take i name else name)"

definition path_suffix :: "path \<Rightarrow> string" where
  "path_suffix p =
     (let name = path_name p
      in case rfind_dot name of
           None \<Rightarrow> []
         | Some i \<Rightarrow> if 0 < i \<and> i < length name - 1 then drop i name else [])"

definition joinpath :: "path \<Rightarrow> string \<Rightarrow> path" where
  "joinpath p c = p @ [c]"

fun path_str :: "path \<Rightarrow> string" where
  "path_str [] = ''.''"
| "path_str [c] = c"
| "path_str (c # d # ds) = c @ ''/'' @ path_str (d # ds)"

fun join_words :: "string list \<Rightarrow> string" where
  "join_words [] = []"
| "join_words [c] = c"
| "join_words (c # d # ds) = c @ '' '' @ join_words (d # ds)"

section \<open>The environment of a job\<close>

type_synonym byte = "8 word"

datatype proc_outcome =
    Exited int string string
  | ExecFileNotFound
  | ExecFailed string

datatype io_exn = FileNotFoundError | OSError string | UnexpectedError string

datatype json_exn = JSONDecodeError string | OtherJsonError string

datatype api_outcome =
    ApiRaised string string
  | Completion "string option list"

record chat_request =
  req_api_key :: string
  req_base_url :: string
  req_model :: string
  req_image_url :: string
  req_text :: string

record AppSettings =
  resetdata_base_url :: string
  resetdata_model :: string
  max_workers :: int
  process_timeout :: int
  temp_dir_base :: string
  libreoffice_command :: string
  pdftoppm_command :: string
  pdfinfo_command :: string
  log_level :: string

text \<open>
  Everything the program asks of the operating system, the network and the libraries it
  imports. \<open>'s\<close> is the state of the outside world (files, clock, remote service); a call
  that can change it returns the new state. The fields:
  \<^item> \<open>path_exists\<close>, \<open>mkdir_parents\<close> (\<open>Some e\<close> when \<open>mkdir\<close> raises \<open>OSError\<close>), \<open>unlink\<close>,
    \<open>glob\<close>, \<open>read_bytes\<close>: \<open>pathlib\<close>;
  \<^item> \<open>create_subprocess_exec\<close>: launching a tool and waiting for it, the output decoded;
  \<^item> \<open>chat_completions_create\<close>: the request to the remote model;
  \<^item> \<open>json_loads\<close>, \<open>json_dumps\<close>, \<open>html_unescape\<close> (\<open>None\<close> when it raises): the libraries;
  \<^item> \<open>parse_pdfinfo_output\<close>: the parser of the metadata tool's text, whose result is
    left open here;
  \<^item> \<open>META_PROMPT_TEMPLATE\<close>: the text of \<open>prompts/meta_prompt.txt\<close>;
  \<^item> \<open>datetime_now_isoformat\<close>, \<open>time_seconds\<close>, \<open>timings\<close>: the clock.
\<close>

record 's world =
  path_exists :: "path \<Rightarrow> 's \<Rightarrow> bool"
  mkdir_parents :: "path \<Rightarrow> 's \<Rightarrow> string option \<times> 's"
  unlink :: "path \<Rightarrow> 's \<Rightarrow> 's"
  glob :: "path \<Rightarrow> string \<Rightarrow> 's \<Rightarrow> path list"
  read_bytes :: "path \<Rightarrow> 's \<Rightarrow> io_exn + byte list"
  create_subprocess_exec :: "string list \<Rightarrow> 's \<Rightarrow> proc_outcome \<times> 's"
  chat_completions_create :: "chat_request \<Rightarrow> 's \<Rightarrow> api_outcome \<times> 's"
  json_loads :: "string \<Rightarrow> json_exn + json"
  json_dumps :: "(string \<times> json) list \<Rightarrow> string"
  html_unescape :: "string \<Rightarrow> string option"
  parse_pdfinfo_output :: "string \<Rightarrow> (string \<rightharpoonup> json)"
  META_PROMPT_TEMPLATE :: string
  datetime_now_isoformat :: "'s \<Rightarrow> string"
  time_seconds :: "'s \<Rightarrow> int"
  timings :: "'s \<Rightarrow> clock_readings"

section \<open>External tool runner (external\_commands.py)\<close>

definition run_subprocess_async ::
  "'s world \<Rightarrow> string list \<Rightarrow> 's \<Rightarrow> (int \<times> string \<times> string) \<times> 's" where
  "run_subprocess_async w command s =
     (case command of
        [] \<Rightarrow> ((- 2, [], ''Unexpected error running command: list index out of range''), s)
      | c0 # args \<Rightarrow>
          (case create_subprocess_exec w command s of
             (Exited return_code out err, s') \<Rightarrow> ((return_code, py_strip out, py_strip err), s')
           | (ExecFileNotFound, s') \<Rightarrow> ((- 1, [], ''Command not found: '' @ c0), s')
           | (ExecFailed e, s') \<Rightarrow>
               ((- 2, [], ''Unexpected error running command: '' @ e), s')))"

section \<open>Document converter (document\_converter.py)\<close>

definition output_pdf_path :: "path \<Rightarrow> path \<Rightarrow> path" where
  "output_pdf_path input_path output_dir = joinpath output_dir (path_stem input_path @ ''.pdf'')"

definition libreoffice_cmd :: "AppSettings \<Rightarrow> path \<Rightarrow> path \<Rightarrow> string list" where
  "libreoffice_cmd config input_path output_dir =
     [libreoffice_command config, ''--invisible'', ''--norestore'', ''--nolockcheck'',
      ''--convert-to'', ''pdf:writer_pdf_Export'', ''--outdir'', path_str output_dir,
      path_str input_path]"

definition conversion_error_msg ::
  "path \<Rightarrow> path \<Rightarrow> int \<Rightarrow> string \<Rightarrow> string \<Rightarrow> bool \<Rightarrow> string" where
  "conversion_error_msg input_path out_pdf returncode out err out_exists =
     (let msg0 =
            (if \<not> out_exists then
               ''Conversion failed: Output PDF file '' @ sq @ path_name out_pdf @ sq
               @ '' was not created.''
             else
               ''Conversion command finished with error code '' @ str_int returncode
               @ '', although output file might exist.'');
          msg1 =
            (if err \<noteq> [] then
               (if py_contains ''Error: source file could not be loaded'' err then
                  ''Conversion failed: LibreOffice could not load the source file '' @ sq
                  @ path_name input_path @ sq
                  @ ''. It might be corrupted or an unsupported format. Stderr: '' @ err
                else if py_contains ''javaldx failed'' err then
                  ''Conversion failed: LibreOffice Java setup issue (javaldx failed). ''
                  @ ''Check Java installation and LibreOffice configuration. Stderr: '' @ err
                else msg0 @ '' Stderr: '' @ err)
             else if out \<noteq> [] then msg0 @ '' Stdout: '' @ out
             else msg0)
      in py_strip msg1)"

definition convert_to_pdf_libreoffice ::
  "'s world \<Rightarrow> path \<Rightarrow> path \<Rightarrow> AppSettings \<Rightarrow> 's \<Rightarrow> (bool \<times> path option \<times> string) \<times> 's" where
  "convert_to_pdf_libreoffice w input_path output_dir config s =
     (if \<not> path_exists w input_path s then
        ((False, None, ''Input file not found for conversion: '' @ path_str input_path), s)
      else
        let out_pdf = output_pdf_path input_path output_dir
        in case mkdir_parents w output_dir s of
             (Some e, s1) \<Rightarrow>
               ((False, None,
                 ''Failed to create output directory '' @ sq @ path_str output_dir @ sq
                 @ '': '' @ e), s1)
           | (None, s1) \<Rightarrow>
               let ((returncode, out, err), s2) =
                     run_subprocess_async w (libreoffice_cmd config input_path output_dir) s1
               in if returncode = 0 \<and> path_exists w out_pdf s2 then
                    ((True, Some out_pdf, []), s2)
                  else
                    let error_msg =
                          conversion_error_msg input_path out_pdf returncode out err
                            (path_exists w out_pdf s2);
                        s3 = (if path_exists w out_pdf s2 \<and> returncode \<noteq> 0
                              then unlink w out_pdf s2 else s2)
                    in ((False, None, error_msg), s3))"


section \<open>PDF rasterizer and metadata reader (pdf\_processor.py)\<close>

definition is_digit :: "char \<Rightarrow> bool" where
  "is_digit c = (let n = (of_char c :: nat) in 48 \<le> n \<and> n \<le> 57)"

fun nat_of_digits :: "nat \<Rightarrow> string \<Rightarrow> nat" where
  "nat_of_digits acc [] = acc"
| "nat_of_digits acc (c # cs) = nat_of_digits (acc * 10 + ((of_char c :: nat) - 48)) cs"

text \<open>
  The sort key of the generated files: the number matched by \<open>-(\d+)\.png$\<close> in the path's
  text, 0 when the pattern does not match. \<open>$\<close> also matches before a final newline.
\<close>

definition page_suffix_key :: "string \<Rightarrow> int" where
  "page_suffix_key t =
     (let t1 = (if endswith t nl then butlast t else t)
      in if endswith t1 ''.png'' then
           let body = take (length t1 - 4) t1;
               digits = rev (takeWhile is_digit (rev body));
               lead = take (length body - length digits) body
           in if digits \<noteq> [] \<and> lead \<noteq> [] \<and> last lead = CHR ''-''
              then int (nat_of_digits 0 digits) else 0
         else 0)"

definition pdftoppm_cmd :: "AppSettings \<Rightarrow> path \<Rightarrow> path \<Rightarrow> string list" where
  "pdftoppm_cmd config pdf_path output_prefix =
     [pdftoppm_command config, ''-png'', ''-r'', ''300'', ''-cropbox'', path_str pdf_path,
      path_str output_prefix]"

definition or_empty :: "string \<Rightarrow> string" where
  "or_empty t = (if t = [] then ''(empty)'' else t)"

definition extract_pdf_pages_as_png ::
  "'s world \<Rightarrow> path \<Rightarrow> path \<Rightarrow> AppSettings \<Rightarrow> 's \<Rightarrow> (bool \<times> path list \<times> string) \<times> 's" where
  "extract_pdf_pages_as_png w pdf_path output_dir config s =
     (if \<not> path_exists w pdf_path s then
        ((False, [],
          ''Input PDF file not found for screenshot generation: '' @ path_str pdf_path), s)
      else
        let output_prefix = joinpath output_dir (path_stem pdf_path)
        in case mkdir_parents w output_dir s of
             (Some e, s1) \<Rightarrow>
               ((False, [],
                 ''Failed to create screenshot output directory '' @ sq @ path_str output_dir
                 @ sq @ '': '' @ e), s1)
           | (None, s1) \<Rightarrow>
               let ((returncode, out, err), s2) =
                     run_subprocess_async w (pdftoppm_cmd config pdf_path output_prefix) s1;
                   generated_files =
                     sort_key (\<lambda>f. page_suffix_key (path_str f))
                       (glob w output_dir (path_name output_prefix @ ''-*.png'') s2)
               in if generated_files \<noteq> [] then
                    (if returncode \<noteq> 0 then
                       let warning_msg =
                             ''pdftoppm finished with code '' @ str_int returncode @ '' but ''
                             @ str_nat (length generated_files)
                             @ '' screenshots were generated. Stderr: '' @ or_empty err
                             @ ''. Stdout: '' @ or_empty out
                       in ((True, generated_files, py_strip warning_msg), s2)
                     else ((True, generated_files, []), s2))
                  else
                    let m0 = ''Screenshot generation failed: No PNG files were found for prefix ''
                             @ sq @ path_str output_prefix @ sq @ ''.'';
                        m1 = (if returncode \<noteq> 0
                              then m0 @ '' pdftoppm exited with code '' @ str_int returncode @ ''.''
                              else m0);
                        m2 = (if err \<noteq> [] then m1 @ '' Stderr: '' @ err else m1);
                        m3 = (if out \<noteq> [] then m2 @ '' Stdout: '' @ out else m2)
                    in ((False, [], py_strip m3), s2))"

definition extract_pdf_metadata ::
  "'s world \<Rightarrow> path \<Rightarrow> AppSettings \<Rightarrow> 's \<Rightarrow> (bool \<times> string \<times> string) \<times> 's" where
  "extract_pdf_metadata w pdf_path config s =
     (if \<not> path_exists w pdf_path s then
        ((False, [],
          ''Input PDF file not found for metadata extraction: '' @ path_str pdf_path), s)
      else
        let ((returncode, out, err), s1) =
              run_subprocess_async w [pdfinfo_command config, path_str pdf_path] s
        in if returncode = 0 then ((True, out, err), s1)
           else
             let m0 = ''Metadata extraction failed: pdfinfo exited with code ''
                      @ str_int returncode @ ''.'';
                 m1 = (if err \<noteq> [] then m0 @ '' Stderr: '' @ err else m0);
                 m2 = (if out \<noteq> [] then m1 @ '' Stdout: '' @ out else m1)
             in ((False, out, py_strip m2), s1))"

section \<open>Image encoder (image\_processor.py)\<close>

text \<open>
  \<open>base64.b64encode\<close>: three octets become four sextets, each written as a character of the
  alphabet; a last group of one or two octets is filled with zero bits and padded with
  \<open>=\<close>.
\<close>

definition b64_alphabet :: string where
  "b64_alphabet = ''ABCDEFGHIJKLMNOPQRSTUVWXYZabcdefghijklmnopqrstuvwxyz0123456789+/''"

definition b64_char :: "nat \<Rightarrow> char" where
  "b64_char n = b64_alphabet ! n"

definition sextet1 :: "byte \<Rightarrow> nat" where
  "sextet1 a = unat a div 4"

definition sextet2 :: "byte \<Rightarrow> byte \<Rightarrow> nat" where
  "sextet2 a b = unat a mod 4 * 16 + unat b div 16"

definition sextet3 :: "byte \<Rightarrow> byte \<Rightarrow> nat" where
  "sextet3 b c = unat b mod 16 * 4 + unat c div 64"

definition sextet4 :: "byte \<Rightarrow> nat" where
  "sextet4 c = unat c mod 64"

fun b64encode :: "byte list \<Rightarrow> string" where
  "b64encode [] = []"
| "b64encode [a] =
     [b64_char (sextet1 a), b64_char (sextet2 a 0), CHR ''='', CHR ''='']"
| "b64encode [a, b] =
     [b64_char (sextet1 a), b64_char (sextet2 a b), b64_char (sextet3 b 0), CHR ''='']"
| "b64encode (a # b # c # rest) =
     [b64_char (sextet1 a), b64_char (sextet2 a b), b64_char (sextet3 b c),
      b64_char (sextet4 c)] @ b64encode rest"

text \<open>
  \<open>base64.b64decode\<close> on padded text over the alphabet, the form the encoder writes;
  \<open>None\<close> for any other text.
\<close>

fun index_of :: "'a \<Rightarrow> 'a list \<Rightarrow> nat option" where
  "index_of x [] = None"
| "index_of x (y # ys) = (if x = y then Some 0 else map_option Suc (index_of x ys))"

definition b64_index :: "char \<Rightarrow> nat option" where
  "b64_index c = index_of c b64_alphabet"

definition octet1 :: "nat \<Rightarrow> nat \<Rightarrow> byte" where
  "octet1 n1 n2 = of_nat (n1 * 4 + n2 div 16)"

definition octet2 :: "nat \<Rightarrow> nat \<Rightarrow> byte" where
  "octet2 n2 n3 = of_nat (n2 mod 16 * 16 + n3 div 4)"

definition octet3 :: "nat \<Rightarrow> nat \<Rightarrow> byte" where
  "octet3 n3 n4 = of_nat (n3 mod 4 * 64 + n4)"

fun b64decode :: "string \<Rightarrow> byte list option" where
  "b64decode [] = Some []"
| "b64decode (c1 # c2 # c3 # c4 # rest) =
     (if c3 = CHR ''='' \<and> c4 = CHR ''='' \<and> rest = [] then
        (case (b64_index c1, b64_index c2) of
           (Some n1, Some n2) \<Rightarrow> Some [octet1 n1 n2]
         | _ \<Rightarrow> None)
      else if c4 = CHR ''='' \<and> rest = [] then
        (case (b64_index c1, b64_index c2, b64_index c3) of
           (Some n1, Some n2, Some n3) \<Rightarrow> Some [octet1 n1 n2, octet2 n2 n3]
         | _ \<Rightarrow> None)
      else
        (case (b64_index c1, b64_index c2, b64_index c3, b64_index c4) of
           (Some n1, Some n2, Some n3, Some n4) \<Rightarrow>
             (case b64decode rest of
                Some bs \<Rightarrow> Some (octet1 n1 n2 # octet2 n2 n3 # octet3 n3 n4 # bs)
              | None \<Rightarrow> None)
         | _ \<Rightarrow> None))"
| "b64decode _ = None"

definition encode_image_to_base64 ::
  "'s world \<Rightarrow> path \<Rightarrow> 's \<Rightarrow> string option \<times> string option" where
  "encode_image_to_base64 w image_path s =
     (case read_bytes w image_path s of
        Inr image_bytes \<Rightarrow> (Some (b64encode image_bytes), None)
      | Inl FileNotFoundError \<Rightarrow>
          (None, Some (''Image file not found for encoding: '' @ path_str image_path))
      | Inl (OSError e) \<Rightarrow>
          (None, Some (''OS error reading image file '' @ sq @ path_str image_path @ sq
                       @ '': '' @ e))
      | Inl (UnexpectedError e) \<Rightarrow>
          (None, Some (''Unexpected error during image encoding for '' @ sq
                       @ path_str image_path @ sq @ '': '' @ e)))"


section \<open>Inference adapter (resetdata\_ai\_adapter.py)\<close>

definition build_resetdata_messages :: "string \<Rightarrow> string \<Rightarrow> string \<times> string" where
  "build_resetdata_messages image_base64 prompt_text =
     (''data:image/png;base64,'' @ image_base64, prompt_text)"

text \<open>
  The normalized response \<open>{"candidates": [{"content": {"parts": [{"text": t}]}}]}\<close> is
  the text \<open>t\<close> it holds.
\<close>

definition call_resetdata_openai_api ::
  "'s world \<Rightarrow> string \<Rightarrow> string \<Rightarrow> AppSettings \<Rightarrow> int \<Rightarrow> string \<Rightarrow> string \<Rightarrow> 's \<Rightarrow>
   (string option \<times> PageProcessingStatus option \<times> string option) \<times> 's" where
  "call_resetdata_openai_api w image_base64 prompt_text config pn api_key fmt s =
     (if api_key = [] then
        ((None, Some ERROR_API, Some ''Missing required ResetData LLM API key.''), s)
      else
        let (url, txt) = build_resetdata_messages image_base64 prompt_text;
            request = \<lparr> req_api_key = api_key, req_base_url = resetdata_base_url config,
                        req_model = resetdata_model config, req_image_url = url,
                        req_text = txt \<rparr>;
            (outcome, s1) = chat_completions_create w request s;
            (response_json, err) =
              (case outcome of
                 ApiRaised cls msg \<Rightarrow>
                   (None, Some (''ResetData API error: '' @ cls @ '': '' @ msg))
               | Completion choices \<Rightarrow>
                   let content_text = (case choices of [] \<Rightarrow> Some [] | c # cs \<Rightarrow> c)
                   in (Some (case content_text of None \<Rightarrow> [] | Some t \<Rightarrow> t), None))
        in if truthy err then ((None, Some ERROR_API, err), s1)
           else ((response_json, None, None), s1))"

text \<open>The text between the code fences: the variable \<open>clean_text\<close>.\<close>

definition clean_text_of :: "string \<Rightarrow> string" where
  "clean_text_of extracted_text =
     (let c0 = py_strip extracted_text;
          c1 = (if startswith c0 ''```json'' then drop 7 c0 else c0);
          c2 = (if endswith c1 ''```'' then take (length c1 - 3) c1 else c1)
      in py_strip c2)"

definition parse_and_validate_ai_output ::
  "'s world \<Rightarrow> string \<Rightarrow> int \<Rightarrow> string \<Rightarrow> json \<times> PageProcessingStatus option \<times> string option" where
  "parse_and_validate_ai_output w extracted_text pn requested_format =
     (if requested_format = ''application/json'' then
        let clean_text = clean_text_of extracted_text;
            decoded_text =
              (case html_unescape w clean_text of Some d \<Rightarrow> d | None \<Rightarrow> clean_text);
            parsed =
              (if clean_text = [] then
                 Inl (JSONDecodeError ''Extracted text is empty.: line 1 column 1 (char 0)'')
               else json_loads w decoded_text)
        in case parsed of
             Inr parsed_json \<Rightarrow> (parsed_json, None, None)
           | Inl (JSONDecodeError e) \<Rightarrow>
               (JStr extracted_text, Some ERROR_PARSING,
                Some (''Failed to parse AI response as JSON for page '' @ str_int pn @ '': ''
                      @ e @ ''.''))
           | Inl (OtherJsonError e) \<Rightarrow>
               (JStr extracted_text, Some ERROR_PARSING,
                Some (''Unexpected error processing AI JSON response for page '' @ str_int pn
                      @ '': '' @ e @ ''.''))
      else (JStr extracted_text, None, None))"

section \<open>Page pipeline (workflow\_orchestrator.py)\<close>

datatype exn = ValueError string | RuntimeError string | ValidationError string

text \<open>
  Building a \<open>PageProcessingResult\<close> validates \<open>data\<close> against its declared type
  \<open>Optional[Union[Dict[str, Any], str]]\<close>: \<open>None\<close>, a dictionary and a string pass, any
  other value raises.
\<close>

definition validate_data :: "json \<Rightarrow> exn + payload option" where
  "validate_data v =
     (case v of
        JNull \<Rightarrow> Inr None
      | JObj kvs \<Rightarrow> Inr (Some (PDict kvs))
      | JStr t \<Rightarrow> Inr (Some (PStr t))
      | _ \<Rightarrow> Inl (ValidationError ''1 validation error for PageProcessingResult''))"

definition new_PageProcessingResult ::
  "'s world \<Rightarrow> 's \<Rightarrow> int \<Rightarrow> PageProcessingStatus \<Rightarrow> json \<Rightarrow> string option \<Rightarrow> string option \<Rightarrow>
   exn + PageProcessingResult" where
  "new_PageProcessingResult w s pn st d em rr =
     (case validate_data d of
        Inl e \<Rightarrow> Inl e
      | Inr p \<Rightarrow>
          Inr \<lparr> page_number = pn, status = st, data = p, error_message = em,
                raw_response = rr, processed_at = datetime_now_isoformat w s \<rparr>)"

record page_task =
  page_num :: int
  screenshot_path :: path
  prompt_to_use :: string
  output_format :: string
  task_dir :: path
  task_config :: AppSettings
  llm_api_key :: string

text \<open>
  \<open>str(response_json)\<close> where it is used: the text of the response is empty in that
  branch.
\<close>

definition empty_response_repr :: string where
  "empty_response_repr =
     ''{'' @ sq @ ''candidates'' @ sq @ '': [{'' @ sq @ ''content'' @ sq @ '': {'' @ sq
     @ ''parts'' @ sq @ '': [{'' @ sq @ ''text'' @ sq @ '': '' @ sq @ sq @ ''}]}}]}''"

definition process_single_page ::
  "'s world \<Rightarrow> page_task \<Rightarrow> 's \<Rightarrow> (exn + PageProcessingResult) \<times> 's" where
  "process_single_page w t s =
     (let (img_base64, img_err) = encode_image_to_base64 w (screenshot_path t) s
      in if truthy img_err then
           (new_PageProcessingResult w s (page_num t) ERROR_IMAGE_ENCODING JNull
              (Some (''Failed to encode image: '' @ fmt_opt img_err)) None, s)
         else
           let ((response_json, error_status, error_msg), s1) =
                 call_resetdata_openai_api w (fmt_opt img_base64) (prompt_to_use t)
                   (task_config t) (page_num t) (llm_api_key t) (output_format t) s
           in if truthy error_msg then
                (new_PageProcessingResult w s1 (page_num t)
                   (case error_status of Some st \<Rightarrow> st | None \<Rightarrow> ERROR_API) JNull
                   error_msg None, s1)
              else if \<not> truthy response_json then
                (new_PageProcessingResult w s1 (page_num t) ERROR_PARSING JNull
                   (Some ''Empty content returned from LLM'')
                   (case response_json of
                      Some r \<Rightarrow> Some (take 1000 empty_response_repr)
                    | None \<Rightarrow> None), s1)
              else
                let extracted_text = fmt_opt response_json;
                    requested_format =
                      (if output_format t = ''json'' then ''application/json''
                       else ''text/plain'');
                    (result_data, validation_status, validation_err) =
                      parse_and_validate_ai_output w extracted_text (page_num t)
                        requested_format
                in if truthy validation_err then
                     (new_PageProcessingResult w s1 (page_num t)
                        (case validation_status of Some st \<Rightarrow> st | None \<Rightarrow> ERROR_PARSING)
                        result_data validation_err (Some (take 1000 extracted_text)), s1)
                   else
                     (new_PageProcessingResult w s1 (page_num t) SUCCESS result_data
                        None None, s1))"


text \<open>
  \<open>process_document_stateless\<close>, one definition per commented section of its body. The
  tasks of a pass are created in page order and run here in that order, each from the
  state the one before left. The \<open>finally\<close> block, which removes the input file and the
  job directory and lets the result or the exception through, is not modelled.
\<close>

definition MAX_META_PAGES :: nat where
  "MAX_META_PAGES = 3"

definition image_extensions :: "string list" where
  "image_extensions = [''.png'', ''.jpg'', ''.jpeg'', ''.gif'', ''.bmp'', ''.webp'']"

definition is_image_input :: "path \<Rightarrow> bool" where
  "is_image_input input_file_path = (py_lower (path_suffix input_file_path) \<in> set image_extensions)"

text \<open>Validation, conversion, metadata and screenshots: \<open>(screenshot_paths, pdf_metadata)\<close>.\<close>

definition stage_pages ::
  "'s world \<Rightarrow> path \<Rightarrow> path \<Rightarrow> AppSettings \<Rightarrow> 's \<Rightarrow>
   (exn + path list \<times> (string \<rightharpoonup> json)) \<times> 's" where
  "stage_pages w input_file_path job_dir config s =
     (if \<not> path_exists w input_file_path s then
        (Inl (ValueError (''Input file not found: '' @ path_str input_file_path)), s)
      else if is_image_input input_file_path then
        (Inr ([input_file_path],
              [''pages'' \<mapsto> JInt 1, ''source_type'' \<mapsto> JStr ''image'']), s)
      else
        let ((convert_success, pdf_path, convert_error), s1) =
              convert_to_pdf_libreoffice w input_file_path (joinpath job_dir ''converted'')
                config s
        in case pdf_path of
             None \<Rightarrow> (Inl (RuntimeError (''Document conversion failed: '' @ convert_error)), s1)
           | Some pdf \<Rightarrow>
               if \<not> convert_success then
                 (Inl (RuntimeError (''Document conversion failed: '' @ convert_error)), s1)
               else
                 let ((meta_success, meta_stdout, meta_stderr), s2) =
                       extract_pdf_metadata w pdf config s1;
                     ((ss_success, screenshot_paths, ss_error), s3) =
                       extract_pdf_pages_as_png w pdf (joinpath job_dir ''screenshots'')
                         config s2;
                     metadata0 =
                       (if meta_success then parse_pdfinfo_output w meta_stdout
                        else Map.empty);
                     metadata = metadata0(''source_type'' \<mapsto> JStr ''document'')
                 in if \<not> ss_success \<or> screenshot_paths = [] then
                      (Inl (RuntimeError (''Screenshot generation failed: '' @ ss_error)), s3)
                    else (Inr (screenshot_paths, metadata), s3))"

text \<open>The tasks of the optional meta pass: the list \<open>meta_tasks\<close>.\<close>

definition meta_tasks ::
  "'s world \<Rightarrow> path list \<Rightarrow> path \<Rightarrow> AppSettings \<Rightarrow> string \<Rightarrow> page_task list" where
  "meta_tasks w screenshot_paths job_dir config api_key =
     (let meta_pages_to_scan = min (length screenshot_paths) MAX_META_PAGES
      in map (\<lambda>i. \<lparr> page_num = int i + 1, screenshot_path = screenshot_paths ! i,
                     prompt_to_use = META_PROMPT_TEMPLATE w, output_format = ''json'',
                     task_dir = joinpath job_dir ''meta_results'', task_config = config,
                     llm_api_key = api_key \<rparr>)
           [0..<meta_pages_to_scan])"

text \<open>The tasks of the main pass: the list \<open>tasks\<close>.\<close>

definition main_tasks ::
  "path list \<Rightarrow> string \<Rightarrow> string \<Rightarrow> path \<Rightarrow> AppSettings \<Rightarrow> string \<Rightarrow> page_task list" where
  "main_tasks screenshot_paths final_user_prompt fmt job_dir config api_key =
     map (\<lambda>(i, p). \<lparr> page_num = int i + 1, screenshot_path = p,
                      prompt_to_use = final_user_prompt, output_format = fmt,
                      task_dir = joinpath job_dir ''page_results'', task_config = config,
                      llm_api_key = api_key \<rparr>)
       (enumerate 0 screenshot_paths)"

fun run_tasks ::
  "'s world \<Rightarrow> page_task list \<Rightarrow> 's \<Rightarrow> (exn + PageProcessingResult) list \<times> 's" where
  "run_tasks w [] s = ([], s)"
| "run_tasks w (t # ts) s =
     (let (r, s1) = process_single_page w t s;
          (rs, s2) = run_tasks w ts s1
      in (r # rs, s2))"

text \<open>
  What the meta pass keeps of one entry of \<open>gather(..., return_exceptions=True)\<close>: the data
  of a result with status \<open>SUCCESS\<close> whose data is a dictionary.
\<close>

definition meta_result_dict :: "exn + PageProcessingResult \<Rightarrow> (string \<times> json) list option" where
  "meta_result_dict res =
     (case res of
        Inl e \<Rightarrow> None
      | Inr r \<Rightarrow>
          if status r = SUCCESS then
            (case data r of Some (PDict d) \<Rightarrow> Some d | _ \<Rightarrow> None)
          else None)"

fun successful_meta_results ::
  "(exn + PageProcessingResult) list \<Rightarrow> (string \<times> json) list list" where
  "successful_meta_results [] = []"
| "successful_meta_results (res # rest) =
     (case meta_result_dict res of
        Some d \<Rightarrow> d # successful_meta_results rest
      | None \<Rightarrow> successful_meta_results rest)"

definition meta_context_of :: "'s world \<Rightarrow> (string \<times> json) list list \<Rightarrow> string" where
  "meta_context_of w successful =
     (if successful \<noteq> [] then
        py_strip
          (''Document Context Summary (from first '' @ str_nat (length successful)
           @ '' page(s)):'' @ nl
           @ concat (map (\<lambda>(i, d). ''- Page '' @ str_nat (i + 1) @ '': '' @ json_dumps w d @ nl)
                       (enumerate 0 successful)))
      else [])"

definition stage_meta_pass ::
  "'s world \<Rightarrow> path list \<Rightarrow> path \<Rightarrow> AppSettings \<Rightarrow> string \<Rightarrow> 's \<Rightarrow> string \<times> 's" where
  "stage_meta_pass w screenshot_paths job_dir config api_key s =
     (let (meta_results_raw, s1) =
            run_tasks w (meta_tasks w screenshot_paths job_dir config api_key) s
      in (meta_context_of w (successful_meta_results meta_results_raw), s1))"

definition final_user_prompt_of :: "string \<Rightarrow> string \<Rightarrow> string" where
  "final_user_prompt_of meta_context user_prompt =
     (if meta_context \<noteq> [] then
        ''DOCUMENT CONTEXT:'' @ nl @ meta_context @ nl @ nl @ ''---'' @ nl @ nl
        @ ''USER TASK:'' @ nl @ user_prompt
      else user_prompt)"

text \<open>
  The loop over \<open>asyncio.as_completed(tasks)\<close>: awaiting a task that raised raises, and
  nothing catches it.
\<close>

fun collect_results :: "(exn + PageProcessingResult) list \<Rightarrow> exn + PageProcessingResult list" where
  "collect_results [] = Inr []"
| "collect_results (Inl e # rest) = Inl e"
| "collect_results (Inr r # rest) =
     (case collect_results rest of Inl e \<Rightarrow> Inl e | Inr rs \<Rightarrow> Inr (r # rs))"

text \<open>The main pass and the aggregation, from the state \<open>s\<close> the passes before left.\<close>

definition stage_main_pass ::
  "'s world \<Rightarrow> path \<Rightarrow> path list \<Rightarrow> (string \<rightharpoonup> json) \<Rightarrow> string \<Rightarrow> string \<Rightarrow> string \<Rightarrow>
   AppSettings \<Rightarrow> string \<Rightarrow> path \<Rightarrow> int \<Rightarrow> 's \<Rightarrow> (exn + AggregatedResult) \<times> 's" where
  "stage_main_pass w input_file_path screenshot_paths metadata user_prompt final_user_prompt fmt
     config api_key job_dir start_timestamp s =
     (let total_pages_to_process = length screenshot_paths;
          (raw, s1) =
            run_tasks w
              (main_tasks screenshot_paths final_user_prompt fmt job_dir config api_key) s
      in case collect_results raw of
           Inl e \<Rightarrow> (Inl e, s1)
         | Inr page_results \<Rightarrow>
             if page_results = [] \<and> total_pages_to_process > 0 then
               (Inl (RuntimeError
                  ''Aggregation failed: No page processing results were collected.''), s1)
             else
               (Inr (aggregate_processing_results (str_int start_timestamp)
                       (path_name input_file_path) page_results metadata user_prompt
                       (timings w s1)), s1))"

definition process_document_stateless ::
  "'s world \<Rightarrow> path \<Rightarrow> string \<Rightarrow> string \<Rightarrow> bool \<Rightarrow> AppSettings \<Rightarrow> string \<Rightarrow> path \<Rightarrow> 's \<Rightarrow>
   (exn + AggregatedResult) \<times> 's" where
  "process_document_stateless w input_file_path user_prompt fmt use_meta_intelligence config
     api_key job_dir s =
     (let start_timestamp = time_seconds w s
      in case stage_pages w input_file_path job_dir config s of
           (Inl e, s1) \<Rightarrow> (Inl e, s1)
         | (Inr (screenshot_paths, metadata), s1) \<Rightarrow>
             let (meta_context, s2) =
                   (if use_meta_intelligence \<and> \<not> is_image_input input_file_path
                    then stage_meta_pass w screenshot_paths job_dir config api_key s1
                    else ([], s1))
             in stage_main_pass w input_file_path screenshot_paths metadata user_prompt
                  (final_user_prompt_of meta_context user_prompt) fmt config api_key job_dir
                  start_timestamp s2)"

section \<open>A concrete environment\<close>

text \<open>
  A small outside world on which the definitions can be run. Its state is the list of the
  files that exist. A scenario fixes what the three tools and the remote model do: the
  exit codes, whether the converter writes its output, the images the rasterizer writes,
  and the text the model answers.
\<close>

record scenario =
  sc_convert_rc :: int
  sc_convert_writes :: bool
  sc_pdfinfo_rc :: int
  sc_pdftoppm_rc :: int
  sc_pdftoppm_files :: "path list"
  sc_llm_text :: string

definition example_input :: path where
  "example_input = [''uploads'', ''report.docx'']"

definition example_job_dir :: path where
  "example_job_dir = [''jobs'', ''j1'']"

definition example_pdf :: path where
  "example_pdf = [''jobs'', ''j1'', ''converted'', ''report.pdf'']"

definition example_png1 :: path where
  "example_png1 = [''jobs'', ''j1'', ''screenshots'', ''report-1.png'']"

definition example_png2 :: path where
  "example_png2 = [''jobs'', ''j1'', ''screenshots'', ''report-2.png'']"

definition example_config :: AppSettings where
  "example_config = \<lparr>
     resetdata_base_url = ''https://models.au-syd.resetdata.ai/v1'',
     resetdata_model = ''meta-llama/Llama-4-Maverick-17B-128E-Instruct:shared'',
     max_workers = 5, process_timeout = 90, temp_dir_base = ''/tmp/everypage_pure'',
     libreoffice_command = ''libreoffice'', pdftoppm_command = ''pdftoppm'',
     pdfinfo_command = ''pdfinfo'', log_level = ''INFO'' \<rparr>"

definition example_clock :: clock_readings where
  "example_clock = \<lparr> aggregation_timestamp_now = ''2025-01-01T00:00:16'',
     total_processing_time = ''15.5'', aggregation_time = ''0.001'' \<rparr>"

definition example_exec :: "scenario \<Rightarrow> string list \<Rightarrow> path list \<Rightarrow> proc_outcome \<times> path list" where
  "example_exec sc command s =
     (case command of
        [] \<Rightarrow> (ExecFailed ''no command'', s)
      | c0 # args \<Rightarrow>
          if c0 = ''libreoffice'' then
            (Exited (sc_convert_rc sc) [] [],
             if sc_convert_writes sc then example_pdf # s else s)
          else if c0 = ''pdfinfo'' then
            (Exited (sc_pdfinfo_rc sc) ''Pages: 2'' [], s)
          else if c0 = ''pdftoppm'' then
            (Exited (sc_pdftoppm_rc sc) [] ''Syntax Warning: missing font'',
             sc_pdftoppm_files sc @ s)
          else (ExecFileNotFound, s))"

definition dq :: string where
  "dq = [CHR 0x22]"

definition example_loads :: "string \<Rightarrow> json_exn + json" where
  "example_loads t =
     (if t = ''null'' then Inr JNull
      else if t = ''{}'' then Inr (JObj [])
      else if t = ''{'' @ dq @ ''a'' @ dq @ '':1}'' then Inr (JObj [(''a'', JInt 1)])
      else if t = ''[1]'' then Inr (JList [JInt 1])
      else Inl (JSONDecodeError ''Expecting value: line 1 column 1 (char 0)''))"

definition example_world :: "scenario \<Rightarrow> path list world" where
  "example_world sc = \<lparr>
     path_exists = (\<lambda>p s. p \<in> set s),
     mkdir_parents = (\<lambda>p s. (None, s)),
     unlink = (\<lambda>p s. removeAll p s),
     glob = (\<lambda>d pat s. filter (\<lambda>p. p \<noteq> [] \<and> butlast p = d \<and> endswith (last p) ''.png'') s),
     read_bytes = (\<lambda>p s. if p \<in> set s then Inr [0x89, 0x50, 0x4E, 0x47]
                           else Inl FileNotFoundError),
     create_subprocess_exec = example_exec sc,
     chat_completions_create = (\<lambda>req s. (Completion [Some (sc_llm_text sc)], s)),
     json_loads = example_loads,
     json_dumps = (\<lambda>d. ''{}''),
     html_unescape = (\<lambda>t. Some t),
     parse_pdfinfo_output = (\<lambda>t. [''pages'' \<mapsto> JInt 2]),
     META_PROMPT_TEMPLATE = ''Describe the document this page belongs to.'',
     datetime_now_isoformat = (\<lambda>s. ''2025-01-01T00:00:10''),
     time_seconds = (\<lambda>s. 1735689600),
     timings = (\<lambda>s. example_clock) \<rparr>"

text \<open>
  The converter succeeds, the metadata tool fails, the rasterizer writes two pages and
  exits with a warning, and the model answers an empty JSON object.
\<close>

definition metadata_fails :: scenario where
  "metadata_fails = \<lparr> sc_convert_rc = 0, sc_convert_writes = True, sc_pdfinfo_rc = 1,
     sc_pdftoppm_rc = 1, sc_pdftoppm_files = [example_png2, example_png1],
     sc_llm_text = ''{}'' \<rparr>"

text \<open>The converter exits with code 0 and writes nothing.\<close>

definition converter_writes_nothing :: scenario where
  "converter_writes_nothing = metadata_fails \<lparr> sc_convert_writes := False \<rparr>"

text \<open>The rasterizer exits with code 0 and writes nothing.\<close>

definition rasterizer_writes_nothing :: scenario where
  "rasterizer_writes_nothing = metadata_fails \<lparr> sc_pdftoppm_rc := 0, sc_pdftoppm_files := [] \<rparr>"

text \<open>The model answers a JSON list, which is no payload.\<close>

definition model_answers_list :: scenario where
  "model_answers_list = metadata_fails \<lparr> sc_llm_text := ''[1]'' \<rparr>"


text \<open>The model answers the JSON literal \<open>null\<close>.\<close>

definition model_answers_null :: scenario where
  "model_answers_null = metadata_fails \<lparr> sc_llm_text := ''null'' \<rparr>"

definition example_task :: "path \<Rightarrow> string \<Rightarrow> page_task" where
  "example_task p fmt = \<lparr> page_num = 1, screenshot_path = p,
     prompt_to_use = ''Extract the summary.'', output_format = fmt,
     task_dir = example_job_dir @ [''page_results''], task_config = example_config,
     llm_api_key = ''key'' \<rparr>"

text \<open>The three results of the example at the end of result\_aggregator.py.\<close>

definition example_result :: "int \<Rightarrow> PageProcessingStatus \<Rightarrow> PageProcessingResult" where
  "example_result n st = \<lparr> page_number = n, status = st,
     data = (if st = SUCCESS \<or> st = MOCK_SUCCESS then Some (PDict []) else None),
     error_message = (if st = SUCCESS \<or> st = MOCK_SUCCESS then None
                      else Some ''API call failed: 500 Server Error''),
     raw_response = None, processed_at = ''2025-01-01T00:00:10'' \<rparr>"

definition page_results_list :: "PageProcessingResult list" where
  "page_results_list =
     [example_result 1 SUCCESS, example_result 3 ERROR_API, example_result 2 MOCK_SUCCESS]"


section \<open>Properties of the aggregator\<close>

lemma count_results_invariant:
  "count_results (p, s, m, e) rs = (p', s', m', e') \<Longrightarrow>
     p' = p + length rs \<and> s' + e' = s + e + length rs \<and> m' + s \<le> s' + m \<and> m \<le> m' \<and> s \<le> s'"
proof (induction rs arbitrary: p s m e)
  case Nil
  then show ?case by simp
next
  case (Cons r rs)
  show ?case
  proof (cases "status r = SUCCESS")
    case True
    with Cons.prems have "count_results (p + 1, s + 1, m, e) rs = (p', s', m', e')" by simp
    from Cons.IH [OF this] show ?thesis by auto
  next
    case False
    show ?thesis
    proof (cases "status r = MOCK_SUCCESS")
      case True
      with False Cons.prems
      have "count_results (p + 1, s + 1, m + 1, e) rs = (p', s', m', e')" by simp
      from Cons.IH [OF this] show ?thesis by auto
    next
      case notmock: False
      with False Cons.prems
      have "count_results (p + 1, s, m, e + 1) rs = (p', s', m', e')" by simp
      from Cons.IH [OF this] show ?thesis by auto
    qed
  qed
qed

lemma count_results_exact:
  "count_results (p, s, m, e) rs =
     (p + length rs,
      s + length (filter (\<lambda>x. status x = SUCCESS \<or> status x = MOCK_SUCCESS) rs),
      m + length (filter (\<lambda>x. status x = MOCK_SUCCESS) rs),
      e + length (filter (\<lambda>x. status x \<noteq> SUCCESS \<and> status x \<noteq> MOCK_SUCCESS) rs))"
  by (induction rs arbitrary: p s m e) auto

lemma aggregate_fields:
  assumes "count_results (0, 0, 0, 0) rs = (p, s, m, e)"
  shows "aggregate_processing_results jid doc rs md up ck =
     \<lparr> job_id = jid,
       summary = \<lparr>
            document_name = doc,
            source_total_pages =
              (case md ''pages'' of Some v \<Rightarrow> v | None \<Rightarrow> JInt (int (length rs))),
            processed_pages_count = p,
            successful_pages_count = s,
            mock_pages_count = m,
            pages_with_errors_count = e,
            processing_prompt_used_snippet = prompt_snippet up,
            aggregation_timestamp = aggregation_timestamp_now ck,
            total_processing_time_seconds = total_processing_time ck,
            aggregation_time_seconds = aggregation_time ck,
            pdf_metadata = md \<rparr>,
       pages = sort_key page_number rs \<rparr>"
  using assms by (simp add: aggregate_processing_results_def Let_def)

lemma aggregate_counts:
  fixes jid doc rs md up ck
  defines "r \<equiv> aggregate_processing_results jid doc rs md up ck"
  shows "length (pages r) = processed_pages_count (summary r)"
    and "successful_pages_count (summary r) + pages_with_errors_count (summary r)
           = processed_pages_count (summary r)"
    and "mock_pages_count (summary r) \<le> successful_pages_count (summary r)"
    and "processed_pages_count (summary r) = length rs"
proof -
  obtain p s m e where c: "count_results (0, 0, 0, 0) rs = (p, s, m, e)"
    by (metis prod_cases4)
  from count_results_invariant [OF c]
  have inv: "p = length rs" "s + e = length rs" "m \<le> s" by auto
  note f = aggregate_fields [OF c, of jid doc md up ck]
  show "length (pages r) = processed_pages_count (summary r)"
    by (simp add: r_def f inv)
  show "successful_pages_count (summary r) + pages_with_errors_count (summary r)
           = processed_pages_count (summary r)"
    by (simp add: r_def f inv)
  show "mock_pages_count (summary r) \<le> successful_pages_count (summary r)"
    by (simp add: r_def f inv)
  show "processed_pages_count (summary r) = length rs"
    by (simp add: r_def f inv)
qed

lemma aggregate_pages:
  "pages (aggregate_processing_results jid doc rs md up ck) = sort_key page_number rs"
  by (simp add: aggregate_processing_results_def Let_def split: prod.splits)

lemma aggregate_snippet:
  "processing_prompt_used_snippet (summary (aggregate_processing_results jid doc rs md up ck))
     = prompt_snippet up"
  by (simp add: aggregate_processing_results_def Let_def split: prod.splits)

lemma aggregate_metadata:
  "pdf_metadata (summary (aggregate_processing_results jid doc rs md up ck)) = md"
  "source_total_pages (summary (aggregate_processing_results jid doc rs md up ck))
     = (case md ''pages'' of Some v \<Rightarrow> v | None \<Rightarrow> JInt (int (length rs)))"
  by (simp_all add: aggregate_processing_results_def Let_def split: prod.splits)

text \<open>
  Claim C1, as the code has it. For every list of page outcomes, in any order and with any
  statuses, the pages of the aggregated result are the given outcomes sorted by page number
  in ascending order; the order is strict whenever the page numbers of the outcomes are
  pairwise distinct. The summary counts satisfy: the number of pages equals the processed
  count, successful plus failed equals the processed count (a mock success counts as
  successful), and the mock count is at most the successful count. Outcomes with the same
  page number keep the order they had in the input.
\<close>

theorem aggregate_sorted_and_counts:
  "sorted (map page_number (pages (aggregate_processing_results jid doc rs md up ck)))
   \<and> mset (pages (aggregate_processing_results jid doc rs md up ck)) = mset rs
   \<and> (distinct (map page_number rs) \<longrightarrow>
        sorted_wrt (<) (map page_number (pages (aggregate_processing_results jid doc rs md up ck))))
   \<and> length (pages (aggregate_processing_results jid doc rs md up ck))
       = processed_pages_count (summary (aggregate_processing_results jid doc rs md up ck))
   \<and> successful_pages_count (summary (aggregate_processing_results jid doc rs md up ck))
       + pages_with_errors_count (summary (aggregate_processing_results jid doc rs md up ck))
       = processed_pages_count (summary (aggregate_processing_results jid doc rs md up ck))
   \<and> mock_pages_count (summary (aggregate_processing_results jid doc rs md up ck))
       \<le> successful_pages_count (summary (aggregate_processing_results jid doc rs md up ck))
   \<and> successful_pages_count (summary (aggregate_processing_results jid doc rs md up ck))
       = length (filter (\<lambda>x. status x = SUCCESS \<or> status x = MOCK_SUCCESS) rs)
   \<and> mock_pages_count (summary (aggregate_processing_results jid doc rs md up ck))
       = length (filter (\<lambda>x. status x = MOCK_SUCCESS) rs)
   \<and> filter (\<lambda>x. page_number x = k)
         (pages (aggregate_processing_results jid doc rs md up ck))
       = filter (\<lambda>x. page_number x = k) rs"
proof -
  let ?r = "aggregate_processing_results jid doc rs md up ck"
  have pg: "pages ?r = sort_key page_number rs" by (rule aggregate_pages)
  have ex: "successful_pages_count (summary ?r)
        = length (filter (\<lambda>x. status x = SUCCESS \<or> status x = MOCK_SUCCESS) rs)"
    "mock_pages_count (summary ?r) = length (filter (\<lambda>x. status x = MOCK_SUCCESS) rs)"
    using aggregate_fields [OF count_results_exact, of jid doc rs md up ck] by simp_all
  have stable: "filter (\<lambda>x. page_number x = k) (pages ?r)
      = filter (\<lambda>x. page_number x = k) rs"
    by (simp add: pg sort_key_stable)
  have s: "sorted (map page_number (pages ?r))" by (simp add: pg)
  have m: "mset (pages ?r) = mset rs" by (simp add: pg)
  have d: "distinct (map page_number rs) \<longrightarrow> sorted_wrt (<) (map page_number (pages ?r))"
  proof
    assume "distinct (map page_number rs)"
    then have "distinct (map page_number (pages ?r))"
      by (metis m mset_map mset_eq_imp_distinct_iff)
    with s show "sorted_wrt (<) (map page_number (pages ?r))"
      by (simp add: strict_sorted_iff)
  qed
  from s m d ex stable aggregate_counts(1-3) [of jid doc rs md up ck] show ?thesis by blast
qed

text \<open>The example of result\_aggregator.py: pages 1, 3, 2 come out as 1, 2, 3.\<close>

theorem aggregate_sorted_and_counts_witness:
  "distinct (map page_number page_results_list)
   \<and> map page_number (pages (aggregate_processing_results ''job-123-test''
        ''example_document.pdf'' page_results_list Map.empty ''Analyze this page.''
        example_clock)) = [1, 2, 3]
   \<and> sorted_wrt (<) (map page_number (pages (aggregate_processing_results ''job-123-test''
        ''example_document.pdf'' page_results_list Map.empty ''Analyze this page.''
        example_clock)))"
  using aggregate_sorted_and_counts [of "''job-123-test''" "''example_document.pdf''"
      page_results_list Map.empty "''Analyze this page.''" example_clock]
  by (simp add: page_results_list_def example_result_def aggregate_pages)

text \<open>
  Claim C1 as stated fails on two outcomes with the same page number: the sorted pages are
  not strictly ascending.
\<close>

theorem aggregate_strictly_ascending_counterexample:
  "\<not> sorted_wrt (<) (map page_number (pages (aggregate_processing_results ''job''
        ''doc.pdf'' [example_result 1 SUCCESS, example_result 1 ERROR_API] Map.empty
        ''prompt'' example_clock)))"
  by (simp add: example_result_def aggregate_pages)

text \<open>
  The order in which the outcomes arrive does not matter when their page numbers are
  pairwise distinct, as those of a main pass are: any rearrangement of the list gives the
  same aggregated result.
\<close>

lemma filter_eq_distinct:
  "distinct xs \<Longrightarrow> k \<in> set xs \<Longrightarrow> filter (\<lambda>x. x = k) xs = [k]"
  by (induction xs) (auto simp: filter_empty_conv)

lemma aggregate_order_irrelevant:
  assumes "mset rs' = mset rs" and "distinct (map page_number rs)"
  shows "aggregate_processing_results jid doc rs' md up ck
           = aggregate_processing_results jid doc rs md up ck"
proof -
  have len: "length rs' = length rs"
    using assms(1) by (metis size_mset)
  have cnt: "length (filter P rs') = length (filter P rs)" for P
    using assms(1) by (metis mset_filter size_mset)
  have inj: "inj_on page_number (set rs)" and dist: "distinct rs"
    using assms(2) by (simp_all add: distinct_map)
  have "sort_key page_number rs = sort_key page_number rs'"
  proof (rule properties_for_sort_key)
    show "mset (sort_key page_number rs') = mset rs"
      by (simp add: assms(1))
    show "sorted (map page_number (sort_key page_number rs'))"
      by simp
    fix k
    assume "k \<in> set (sort_key page_number rs')"
    then have k: "k \<in> set rs"
      using assms(1) by (metis set_sort set_mset_mset)
    have "filter (\<lambda>x. page_number k = page_number x) (sort_key page_number rs')
        = filter (\<lambda>x. page_number k = page_number x) rs'"
      using sort_key_stable [of page_number "page_number k" rs']
      by (simp add: eq_commute)
    moreover have "mset (filter (\<lambda>x. page_number k = page_number x) rs')
        = mset (filter (\<lambda>x. page_number k = page_number x) rs)"
      by (simp add: assms(1))
    moreover have "filter (\<lambda>x. page_number k = page_number x) rs = [k]"
    proof -
      have "filter (\<lambda>x. page_number k = page_number x) rs = filter (\<lambda>x. x = k) rs"
        using inj k by (intro filter_cong) (auto dest: inj_onD)
      with dist k show ?thesis
        by (simp add: filter_eq_distinct)
    qed
    ultimately show "filter (\<lambda>x. page_number k = page_number x) (sort_key page_number rs')
        = filter (\<lambda>x. page_number k = page_number x) rs"
      by (metis mset_single_iff_right mset.simps(1) mset.simps(2))
  qed
  then show ?thesis
    using aggregate_fields [OF count_results_exact, of jid doc rs md up ck]
      aggregate_fields [OF count_results_exact, of jid doc rs' md up ck]
    by (simp add: len cnt cong: option.case_cong)
qed

text \<open>
  Claim C9, as the code has it. The prompt snippet of the summary is the prompt itself when
  the prompt has at most 200 characters; a longer prompt is cut to its first 200 characters
  and three dots are appended, which makes 203 characters.
\<close>

theorem prompt_snippet_length:
  "processing_prompt_used_snippet (summary (aggregate_processing_results jid doc rs md up ck))
     = (if length up \<le> 200 then up else take 200 up @ ''...'')
   \<and> length (processing_prompt_used_snippet
        (summary (aggregate_processing_results jid doc rs md up ck)))
     = (if length up \<le> 200 then length up else 203)"
  by (simp add: aggregate_snippet prompt_snippet_def)

text \<open>A prompt of 250 characters, and the short prompt of the source's example.\<close>

theorem prompt_snippet_length_witness:
  "length (replicate 250 CHR ''x'') > 200
   \<and> processing_prompt_used_snippet (summary (aggregate_processing_results ''job'' ''doc.pdf''
        [] Map.empty (replicate 250 CHR ''x'') example_clock))
      = replicate 200 CHR ''x'' @ ''...''
   \<and> processing_prompt_used_snippet (summary (aggregate_processing_results ''job'' ''doc.pdf''
        [] Map.empty ''Analyze this page.'' example_clock)) = ''Analyze this page.''"
  using prompt_snippet_length [of "''job''" "''doc.pdf''" "[]" Map.empty
      "replicate 250 CHR ''x''" example_clock]
    prompt_snippet_length [of "''job''" "''doc.pdf''" "[]" Map.empty
      "''Analyze this page.''" example_clock]
  by simp

text \<open>Claim C9 as stated fails for a prompt of 201 characters: the snippet is longer than 200.\<close>

theorem prompt_snippet_200_counterexample:
  "\<not> length (processing_prompt_used_snippet (summary (aggregate_processing_results ''job''
        ''doc.pdf'' [] Map.empty (replicate 201 CHR ''x'') example_clock))) \<le> 200"
  by (simp add: aggregate_snippet prompt_snippet_def)

section \<open>Properties of the image encoder\<close>

lemma index_of_nth: "distinct xs \<Longrightarrow> n < length xs \<Longrightarrow> index_of (xs ! n) xs = Some n"
proof (induction xs arbitrary: n)
  case Nil
  then show ?case by simp
next
  case (Cons y ys)
  then show ?case by (cases n) auto
qed

lemma distinct_b64_alphabet: "distinct b64_alphabet"
  by (simp add: b64_alphabet_def)

lemma length_b64_alphabet: "length b64_alphabet = 64"
  by (simp add: b64_alphabet_def)

lemma b64_index_char: "n < 64 \<Longrightarrow> b64_index (b64_char n) = Some n"
  by (simp add: b64_index_def b64_char_def index_of_nth distinct_b64_alphabet length_b64_alphabet)

lemma pad_not_in_alphabet: "CHR ''='' \<notin> set b64_alphabet"
  by (simp add: b64_alphabet_def)

lemma b64_char_not_pad: "n < 64 \<Longrightarrow> b64_char n \<noteq> CHR ''=''"
proof -
  assume "n < 64"
  then have "b64_alphabet ! n \<in> set b64_alphabet"
    by (simp add: length_b64_alphabet)
  with pad_not_in_alphabet show ?thesis
    by (auto simp: b64_char_def)
qed

lemma unat_byte_less: "unat (a :: byte) < 256"
  using unsigned_less [of a, where ?'a = nat] by simp

lemma sextets_in_range:
  "sextet1 a < 64" "sextet2 a b < 64" "sextet3 b c < 64" "sextet4 c < 64"
  using unat_byte_less [of a] unat_byte_less [of b] unat_byte_less [of c]
  by (simp_all add: sextet1_def sextet2_def sextet3_def sextet4_def)

lemma sextet_arith:
  fixes x y z :: nat
  assumes "y < 256" "z < 256"
  shows "x div 4 * 4 + (x mod 4 * 16 + y div 16) div 16 = x"
    and "(x mod 4 * 16 + y div 16) mod 16 * 16 + (y mod 16 * 4 + z div 64) div 4 = y"
    and "(y mod 16 * 4 + z div 64) mod 4 * 64 + z mod 64 = z"
proof -
  from assms have y16: "y div 16 < 16" and z64: "z div 64 < 4" by simp_all
  show "x div 4 * 4 + (x mod 4 * 16 + y div 16) div 16 = x"
    using y16 by simp
  have "(x mod 4 * 16 + y div 16) mod 16 = y div 16"
    using y16 by simp
  moreover have "(y mod 16 * 4 + z div 64) div 4 = y mod 16"
    using z64 by simp
  ultimately show "(x mod 4 * 16 + y div 16) mod 16 * 16 + (y mod 16 * 4 + z div 64) div 4 = y"
    by simp
  have "(y mod 16 * 4 + z div 64) mod 4 = z div 64"
    using z64 by simp
  then show "(y mod 16 * 4 + z div 64) mod 4 * 64 + z mod 64 = z"
    by simp
qed

lemma octets_of_sextets:
  "octet1 (sextet1 a) (sextet2 a b) = a"
  "octet2 (sextet2 a b) (sextet3 b c) = b"
  "octet3 (sextet3 b c) (sextet4 c) = c"
  unfolding octet1_def octet2_def octet3_def sextet1_def sextet2_def sextet3_def sextet4_def
  by (simp_all only: sextet_arith [OF unat_byte_less unat_byte_less] of_nat_unat ucast_id)

lemma b64decode_b64encode: "b64decode (b64encode bs) = Some bs"
proof (induction bs rule: b64encode.induct)
  case 1
  show ?case by simp
next
  case (2 a)
  show ?case
    by (simp add: b64_index_char sextets_in_range octets_of_sextets)
next
  case (3 a b)
  show ?case
    by (simp add: b64_index_char b64_char_not_pad sextets_in_range octets_of_sextets)
next
  case (4 a b c rest)
  then show ?case
    by (simp add: b64_index_char b64_char_not_pad sextets_in_range octets_of_sextets)
qed


text \<open>
  Claim C10. The encoder returns exactly one of an encoded string and an error message:
  either the file was read, the string is present, there is no message, and decoding the
  string gives back exactly the bytes of the file; or reading failed, there is no string
  and the message is present and not empty.
\<close>

theorem encode_image_to_base64_round_trip:
  "(case encode_image_to_base64 w image_path s of
      (Some b64, None) \<Rightarrow> (\<exists>bs. read_bytes w image_path s = Inr bs \<and> b64decode b64 = Some bs)
    | (None, Some msg) \<Rightarrow> msg \<noteq> [] \<and> (\<exists>e. read_bytes w image_path s = Inl e)
    | _ \<Rightarrow> False)"
proof (cases "read_bytes w image_path s")
  case (Inl e)
  then show ?thesis
    by (cases e) (simp_all add: encode_image_to_base64_def)
next
  case (Inr bs)
  then show ?thesis
    by (simp add: encode_image_to_base64_def b64decode_b64encode)
qed

text \<open>The first four bytes of a PNG file, and a file that does not exist.\<close>

theorem encode_image_to_base64_round_trip_witness:
  "encode_image_to_base64 (example_world metadata_fails) example_png1 [example_png1]
     = (Some ''iVBORw=='', None)
   \<and> b64decode ''iVBORw=='' = Some [0x89, 0x50, 0x4E, 0x47]"
  using encode_image_to_base64_round_trip [of "example_world metadata_fails" example_png1
      "[example_png1]"]
  by (simp add: encode_image_to_base64_def example_world_def b64_char_def b64_alphabet_def
      sextet1_def sextet2_def sextet3_def sextet4_def)

lemma encode_image_to_base64_missing_file:
  "encode_image_to_base64 (example_world metadata_fails) example_png1 []
     = (None, Some ''Image file not found for encoding: jobs/j1/screenshots/report-1.png'')"
  by (simp add: encode_image_to_base64_def example_world_def example_png1_def)

section \<open>Properties of the converter and the rasterizer\<close>

lemma py_strip_prefix:
  assumes "a \<noteq> []" and "\<not> py_isspace (hd a)" and "x \<in> set b" and "\<not> py_isspace x"
  shows "py_strip (a @ b) = a @ rev (dropWhile py_isspace (rev b))"
proof -
  from assms(1,2) have "dropWhile py_isspace (a @ b) = a @ b"
    by (cases a) simp_all
  moreover from assms(3,4) have
    "dropWhile py_isspace (rev b @ rev a) = dropWhile py_isspace (rev b) @ rev a"
    by (intro dropWhile_append1 [of x]) simp_all
  ultimately show ?thesis
    by (simp add: py_strip_def)
qed

lemma startswith_append: "startswith (a @ b) a"
  by (simp add: startswith_def)

text \<open>
  Claim C3. Once the input file exists and the output directory could be made, the
  converter runs the tool, and it reports success exactly when the tool exits with code 0
  and the expected output file (the stem of the input with the extension pdf, in the
  output directory) exists afterwards; success comes with that path and an empty message,
  failure comes with no path. Exit code 0 with the file missing is a failure. When the tool
  is not run at all the result is a failure as well.
\<close>

theorem convert_to_pdf_libreoffice_success_iff:
  "let res = fst (convert_to_pdf_libreoffice w input_path output_dir config s);
       ran = (path_exists w input_path s \<and> fst (mkdir_parents w output_dir s) = None);
       run = run_subprocess_async w (libreoffice_cmd config input_path output_dir)
               (snd (mkdir_parents w output_dir s));
       returncode = fst (fst run);
       out_exists = path_exists w (output_pdf_path input_path output_dir) (snd run)
   in (fst res \<longleftrightarrow> ran \<and> returncode = 0 \<and> out_exists)
    \<and> (fst res \<longrightarrow> res = (True, Some (output_pdf_path input_path output_dir), []))
    \<and> (\<not> fst res \<longrightarrow> fst (snd res) = None)
    \<and> (ran \<and> returncode = 0 \<and> \<not> out_exists \<longrightarrow> \<not> fst res \<and> fst (snd res) = None)"
  by (auto simp: convert_to_pdf_libreoffice_def Let_def split: prod.splits option.splits)

lemma example_output_pdf_path:
  "output_pdf_path example_input (joinpath example_job_dir ''converted'') = example_pdf"
  by (simp add: output_pdf_path_def joinpath_def example_input_def example_job_dir_def
      example_pdf_def path_stem_def path_name_def rfind_dot_def)

lemma example_run_libreoffice:
  "run_subprocess_async (example_world sc)
     (libreoffice_cmd example_config example_input (joinpath example_job_dir ''converted'')) s
   = ((sc_convert_rc sc, [], []), if sc_convert_writes sc then example_pdf # s else s)"
  by (simp add: run_subprocess_async_def libreoffice_cmd_def example_world_def
      example_exec_def example_config_def py_strip_def)

text \<open>The tool exits with code 0 and the file is there.\<close>

theorem convert_to_pdf_libreoffice_success_iff_witness:
  "fst (convert_to_pdf_libreoffice (example_world metadata_fails) example_input
          (joinpath example_job_dir ''converted'') example_config [example_input])
     = (True, Some example_pdf, [])"
  using convert_to_pdf_libreoffice_success_iff [of "example_world metadata_fails"
      example_input "joinpath example_job_dir ''converted''" example_config "[example_input]"]
  by (simp add: Let_def example_run_libreoffice example_output_pdf_path)
     (simp add: example_world_def metadata_fails_def)

text \<open>The tool exits with code 0 and writes nothing: a failure with no path.\<close>

lemma convert_exit_zero_without_output:
  "fst (convert_to_pdf_libreoffice (example_world converter_writes_nothing) example_input
          (joinpath example_job_dir ''converted'') example_config [example_input])
     = (False, None, ''Conversion failed: Output PDF file '' @ sq @ ''report.pdf'' @ sq
                     @ '' was not created.'')"
proof -
  have ex: "path_exists (example_world converter_writes_nothing) p s = (p \<in> set s)"
    and mk: "mkdir_parents (example_world converter_writes_nothing) p s = (None, s)" for p s
    by (simp_all add: example_world_def)
  have rc: "sc_convert_rc converter_writes_nothing = 0"
    and wr: "\<not> sc_convert_writes converter_writes_nothing"
    by (simp_all add: converter_writes_nothing_def metadata_fails_def)
  have ne: "example_pdf \<noteq> example_input"
    by (simp add: example_pdf_def example_input_def)
  have msg: "conversion_error_msg example_input example_pdf 0 [] [] False
      = ''Conversion failed: Output PDF file '' @ sq @ ''report.pdf'' @ sq
        @ '' was not created.''"
    by (simp add: conversion_error_msg_def Let_def path_name_def example_pdf_def sq_def
        py_strip_def py_isspace_def)
  show ?thesis
    by (simp add: convert_to_pdf_libreoffice_def Let_def ex mk example_run_libreoffice
        example_output_pdf_path rc wr ne msg)
qed

text \<open>
  Claim C4. Once the PDF exists and the output directory could be made, the rasterizer runs
  the tool and then looks for the files with the expected prefix. When none is found the
  result is a failure with an empty list of paths, whatever the exit code. When at least
  one is found the result is a success that returns the found files, ordered by their page
  suffix, whatever the exit code; the message is empty for exit code 0, and for any other
  exit code it is a warning that begins with the exit code. When the tool is not run the
  result is a failure with an empty list. So the result is a success exactly when the list
  of paths is not empty.
\<close>

theorem extract_pdf_pages_as_png_outcome:
  "let res = fst (extract_pdf_pages_as_png w pdf_path output_dir config s);
       ran = (path_exists w pdf_path s \<and> fst (mkdir_parents w output_dir s) = None);
       prefix = joinpath output_dir (path_stem pdf_path);
       run = run_subprocess_async w (pdftoppm_cmd config pdf_path prefix)
               (snd (mkdir_parents w output_dir s));
       returncode = fst (fst run);
       found = glob w output_dir (path_name prefix @ ''-*.png'') (snd run)
   in (ran \<and> found = [] \<longrightarrow> \<not> fst res \<and> fst (snd res) = [])
    \<and> (ran \<and> found \<noteq> [] \<longrightarrow>
          fst res \<and> mset (fst (snd res)) = mset found
          \<and> sorted (map (\<lambda>f. page_suffix_key (path_str f)) (fst (snd res)))
          \<and> (returncode = 0 \<longrightarrow> snd (snd res) = [])
          \<and> (returncode \<noteq> 0 \<longrightarrow>
                snd (snd res) \<noteq> []
                \<and> startswith (snd (snd res))
                     (''pdftoppm finished with code '' @ str_int returncode)))
    \<and> (\<not> ran \<longrightarrow> \<not> fst res \<and> fst (snd res) = [])
    \<and> (fst res \<longleftrightarrow> fst (snd res) \<noteq> [])"
proof -
  define prefix where "prefix = joinpath output_dir (path_stem pdf_path)"
  obtain mk s1 where mk: "mkdir_parents w output_dir s = (mk, s1)"
    by (cases "mkdir_parents w output_dir s")
  obtain rc out err s2 where run:
    "run_subprocess_async w (pdftoppm_cmd config pdf_path prefix) s1 = ((rc, out, err), s2)"
    by (metis prod_cases3 surj_pair)
  define found where "found = glob w output_dir (path_name prefix @ ''-*.png'') s2"
  define files where "files = sort_key (\<lambda>f. page_suffix_key (path_str f)) found"
  define warning where
    "warning = py_strip (''pdftoppm finished with code '' @ str_int rc @ '' but ''
       @ str_nat (length files) @ '' screenshots were generated. Stderr: '' @ or_empty err
       @ ''. Stdout: '' @ or_empty out)"
  have files_empty: "files = [] \<longleftrightarrow> found = []"
    by (metis files_def length_sort length_0_conv)
  have "warning = py_strip ((''pdftoppm finished with code '' @ str_int rc)
       @ ('' but '' @ str_nat (length files) @ '' screenshots were generated. Stderr: ''
          @ or_empty err @ ''. Stdout: '' @ or_empty out))"
    by (simp add: warning_def)
  also have "\<dots> = (''pdftoppm finished with code '' @ str_int rc)
       @ rev (dropWhile py_isspace (rev ('' but '' @ str_nat (length files)
          @ '' screenshots were generated. Stderr: '' @ or_empty err @ ''. Stdout: ''
          @ or_empty out)))"
    by (rule py_strip_prefix [of _ "CHR ''b''"]) (simp_all add: py_isspace_def)
  finally have w: "warning \<noteq> []"
    "startswith warning (''pdftoppm finished with code '' @ str_int rc)"
    by (simp_all only: startswith_append) simp
  show ?thesis
  proof (cases "path_exists w pdf_path s \<and> mk = None")
    case False
    then show ?thesis
      by (auto simp: extract_pdf_pages_as_png_def Let_def mk split: option.splits)
  next
    case True
    let ?res = "fst (extract_pdf_pages_as_png w pdf_path output_dir config s)"
    have nonempty: "?res = (if rc \<noteq> 0 then (True, files, warning) else (True, files, []))"
      if "found \<noteq> []"
      using True that files_empty
      by (simp add: extract_pdf_pages_as_png_def Let_def mk run prefix_def [symmetric]
          found_def [symmetric] files_def [symmetric] warning_def)
    have empty: "\<not> fst ?res \<and> fst (snd ?res) = []" if "found = []"
      using True that files_empty
      by (simp add: extract_pdf_pages_as_png_def Let_def mk run prefix_def [symmetric]
          found_def [symmetric] files_def [symmetric])
    show ?thesis
    proof (cases "found = []")
      case e: True
      with \<open>path_exists w pdf_path s \<and> mk = None\<close> empty show ?thesis
        by (simp add: Let_def mk run prefix_def [symmetric] found_def [symmetric])
    next
      case ne: False
      have "mset files = mset found"
        and "sorted (map (\<lambda>f. page_suffix_key (path_str f)) files)"
        by (simp_all add: files_def)
      with ne \<open>path_exists w pdf_path s \<and> mk = None\<close> w files_empty show ?thesis
        by (simp add: Let_def mk run prefix_def [symmetric] found_def [symmetric]
            nonempty [OF ne])
    qed
  qed
qed

lemma example_page_keys:
  "page_suffix_key (path_str example_png1) = 1" "page_suffix_key (path_str example_png2) = 2"
  by (simp_all add: page_suffix_key_def example_png1_def example_png2_def endswith_def nl_def
      Let_def is_digit_def)

lemma example_screenshot_prefix:
  "joinpath (joinpath example_job_dir ''screenshots'') (path_stem example_pdf)
     = [''jobs'', ''j1'', ''screenshots'', ''report'']"
  by (simp add: joinpath_def example_job_dir_def example_pdf_def path_stem_def path_name_def
      rfind_dot_def)

lemma example_run_pdftoppm:
  "run_subprocess_async (example_world sc)
     (pdftoppm_cmd example_config example_pdf [''jobs'', ''j1'', ''screenshots'', ''report'']) s
   = ((sc_pdftoppm_rc sc, [], ''Syntax Warning: missing font''), sc_pdftoppm_files sc @ s)"
  by (simp add: run_subprocess_async_def pdftoppm_cmd_def example_world_def
      example_exec_def example_config_def py_strip_def py_isspace_def)

lemma example_glob:
  "glob (example_world sc) (joinpath example_job_dir ''screenshots'') pat
     (fs @ [example_pdf, example_input])
   = filter (\<lambda>p. p \<noteq> [] \<and> butlast p = [''jobs'', ''j1'', ''screenshots'']
                \<and> endswith (last p) ''.png'') fs"
  by (simp add: example_world_def joinpath_def example_job_dir_def example_pdf_def
      example_input_def endswith_def)

lemma example_extract_pages:
  assumes sc: "sc_pdftoppm_rc sc = 1"
    "sc_pdftoppm_files sc = [example_png2, example_png1]"
  shows "extract_pdf_pages_as_png (example_world sc) example_pdf
     (joinpath example_job_dir ''screenshots'') example_config [example_pdf, example_input]
   = ((True, [example_png1, example_png2],
       ''pdftoppm finished with code 1 but 2 screenshots were generated. ''
       @ ''Stderr: Syntax Warning: missing font. Stdout: (empty)''),
      [example_png2, example_png1, example_pdf, example_input])"
proof -
  have ex: "path_exists (example_world sc) example_pdf
      [example_pdf, example_input]"
    and mk: "mkdir_parents (example_world sc) p s = (None, s)" for p s
    by (simp_all add: example_world_def)
  have found: "glob (example_world sc) (joinpath example_job_dir ''screenshots'')
      pat [example_png2, example_png1, example_pdf, example_input]
      = [example_png2, example_png1]" for pat
    using example_glob [of sc pat "[example_png2, example_png1]"]
    by (simp add: example_png1_def example_png2_def endswith_def)
  have two: "str_nat (Suc (Suc 0)) = ''2''" and one: "str_int 1 = ''1''"
    by (simp_all add: str_int_def str_nat.simps digit_char_def)
  show ?thesis
    by (simp add: extract_pdf_pages_as_png_def Let_def ex mk example_screenshot_prefix
        example_run_pdftoppm sc found example_page_keys two one or_empty_def py_strip_def
        py_isspace_def)
qed

text \<open>The tool exits with code 1 and has written two pages: success with a warning.\<close>

theorem extract_pdf_pages_as_png_outcome_witness:
  "fst (fst (extract_pdf_pages_as_png (example_world metadata_fails) example_pdf
        (joinpath example_job_dir ''screenshots'') example_config
        [example_pdf, example_input]))
   \<and> fst (snd (fst (extract_pdf_pages_as_png (example_world metadata_fails) example_pdf
        (joinpath example_job_dir ''screenshots'') example_config
        [example_pdf, example_input]))) = [example_png1, example_png2]
   \<and> startswith (snd (snd (fst (extract_pdf_pages_as_png (example_world metadata_fails)
        example_pdf (joinpath example_job_dir ''screenshots'') example_config
        [example_pdf, example_input])))) ''pdftoppm finished with code 1''"
  using extract_pdf_pages_as_png_outcome [of "example_world metadata_fails" example_pdf
      "joinpath example_job_dir ''screenshots''" example_config
      "[example_pdf, example_input]"]
  by (simp add: example_extract_pages metadata_fails_def startswith_def)

text \<open>The tool exits with code 0 and has written nothing: a failure.\<close>

lemma extract_exit_zero_without_output:
  "fst (fst (extract_pdf_pages_as_png (example_world rasterizer_writes_nothing) example_pdf
        (joinpath example_job_dir ''screenshots'') example_config
        [example_pdf, example_input])) = False
   \<and> fst (snd (fst (extract_pdf_pages_as_png (example_world rasterizer_writes_nothing)
        example_pdf (joinpath example_job_dir ''screenshots'') example_config
        [example_pdf, example_input]))) = []"
proof -
  have ex: "path_exists (example_world rasterizer_writes_nothing) example_pdf
      [example_pdf, example_input]"
    and mk: "mkdir_parents (example_world rasterizer_writes_nothing) p s = (None, s)" for p s
    by (simp_all add: example_world_def)
  have sc: "sc_pdftoppm_rc rasterizer_writes_nothing = 0"
    "sc_pdftoppm_files rasterizer_writes_nothing = []"
    by (simp_all add: rasterizer_writes_nothing_def metadata_fails_def)
  have found: "glob (example_world rasterizer_writes_nothing)
      (joinpath example_job_dir ''screenshots'') pat [example_pdf, example_input] = []" for pat
    using example_glob [of rasterizer_writes_nothing pat "[]"] by simp
  show ?thesis
    by (simp add: extract_pdf_pages_as_png_def Let_def ex mk example_screenshot_prefix
        example_run_pdftoppm sc found)
qed

section \<open>Properties of the inference adapter\<close>

lemma py_strip_between_spaces:
  assumes "\<forall>c\<in>set ws1. py_isspace c" and "\<forall>c\<in>set ws2. py_isspace c"
    and "x \<noteq> []" and "\<not> py_isspace (hd x)" and "\<not> py_isspace (last x)"
  shows "py_strip (ws1 @ x @ ws2) = x"
proof -
  from assms(1) have "dropWhile py_isspace (ws1 @ x @ ws2) = dropWhile py_isspace (x @ ws2)"
    by (simp add: dropWhile_append)
  also from assms(3,4) have "\<dots> = x @ ws2"
    by (cases x) simp_all
  finally have l: "dropWhile py_isspace (ws1 @ x @ ws2) = x @ ws2" .
  from assms(2) have "dropWhile py_isspace (rev ws2 @ rev x) = dropWhile py_isspace (rev x)"
    by (simp add: dropWhile_append)
  also from assms(3,5) have "\<dots> = rev x"
    by (cases "rev x") (simp_all add: last_rev [symmetric] del: last_rev)
  finally show ?thesis
    by (simp add: py_strip_def l)
qed

lemma py_strip_edges:
  "py_strip t = [] \<or> (\<not> py_isspace (hd (py_strip t)) \<and> \<not> py_isspace (last (py_strip t)))"
proof (cases "py_strip t = []")
  case True
  then show ?thesis by simp
next
  case False
  let ?l = "dropWhile py_isspace t"
  let ?r = "dropWhile py_isspace (rev ?l)"
  from False have r: "?r \<noteq> []"
    by (simp add: py_strip_def)
  then have last_ok: "\<not> py_isspace (hd ?r)"
    by (rule hd_dropWhile)
  from r have l: "?l \<noteq> []"
    by (cases "dropWhile py_isspace t") simp_all
  then have hd_l: "\<not> py_isspace (hd ?l)"
    by (rule hd_dropWhile)
  obtain pre where pre: "rev ?l = pre @ ?r"
    by (metis takeWhile_dropWhile_id)
  then have "?l = rev ?r @ rev pre"
    by (metis rev_append rev_rev_ident)
  with r have "hd ?l = hd (rev ?r)"
    by (metis hd_append2 rev_is_Nil_conv)
  with hd_l last_ok r show ?thesis
    by (simp add: py_strip_def hd_rev last_rev)
qed

lemma clean_text_of_fenced:
  assumes "\<forall>c\<in>set ws1. py_isspace c" and "\<forall>c\<in>set ws2. py_isspace c"
  shows "clean_text_of (ws1 @ ''```json'' @ body @ ''```'' @ ws2) = py_strip body"
proof -
  let ?x = "''```json'' @ body @ ''```''"
  have "py_strip (ws1 @ ?x @ ws2) = ?x"
    using assms by (intro py_strip_between_spaces) (simp_all add: py_isspace_def)
  then have c0: "py_strip (ws1 @ ''```json'' @ body @ ''```'' @ ws2) = ?x"
    by simp
  have c1: "startswith ?x ''```json''" "drop 7 ?x = body @ ''```''"
    by (simp_all add: startswith_def)
  have c2: "endswith (body @ ''```'') ''```''"
    "take (length (body @ ''```'') - 3) (body @ ''```'') = body"
    by (simp_all add: endswith_def)
  show ?thesis
    unfolding clean_text_of_def Let_def c0
    using c1 c2 by (simp only: if_True)
qed

text \<open>The three ways \<open>parse_and_validate_ai_output\<close> can return.\<close>

lemma parse_and_validate_shape:
  "(\<exists>v. parse_and_validate_ai_output w t pn fmt = (v, None, None)
        \<and> (if fmt = ''application/json'' then t \<noteq> [] \<and> (\<exists>d. json_loads w d = Inr v)
            else v = JStr t))
   \<or> (\<exists>msg. msg \<noteq> [] \<and> fmt = ''application/json''
        \<and> parse_and_validate_ai_output w t pn fmt = (JStr t, Some ERROR_PARSING, Some msg))"
proof -
  have "clean_text_of [] = []"
    by (simp add: clean_text_of_def py_strip_def startswith_def endswith_def)
  then have "clean_text_of t \<noteq> [] \<Longrightarrow> t \<noteq> []"
    by auto
  then show ?thesis
    by (auto simp: parse_and_validate_ai_output_def Let_def
        split: sum.splits json_exn.splits option.splits)
qed

text \<open>
  Claim C2. For every text and page number: when the requested format is raw text, the
  text is returned unchanged with no status and no error, and nothing is parsed. When it
  is structured, the text is cleaned (stripped of surrounding white space, of a leading
  fence with the json tag and of a trailing fence, and stripped again), HTML-unescaped and
  given to the JSON parser; when the cleaned text is not empty and the parser returns a
  value, that value is returned with no status and no error; when the cleaned text is
  empty or the parser fails, the original raw text is returned with the parse-error status
  and a message. Cleaning a fenced text gives its stripped body, and a cleaned text never
  begins or ends with white space.
\<close>

theorem parse_and_validate_ai_output_cases:
  "(fmt \<noteq> ''application/json'' \<longrightarrow>
      parse_and_validate_ai_output w t pn fmt = (JStr t, None, None))
   \<and> (fmt = ''application/json'' \<longrightarrow>
        (\<forall>v. clean_text_of t \<noteq> []
             \<and> json_loads w (case html_unescape w (clean_text_of t) of
                                Some d \<Rightarrow> d | None \<Rightarrow> clean_text_of t) = Inr v
             \<longrightarrow> parse_and_validate_ai_output w t pn fmt = (v, None, None))
      \<and> (clean_text_of t = []
          \<or> (\<exists>e. json_loads w (case html_unescape w (clean_text_of t) of
                                 Some d \<Rightarrow> d | None \<Rightarrow> clean_text_of t) = Inl e)
          \<longrightarrow> (\<exists>msg. msg \<noteq> []
                \<and> parse_and_validate_ai_output w t pn fmt
                    = (JStr t, Some ERROR_PARSING, Some msg))))
   \<and> ((\<forall>c\<in>set ws1. py_isspace c) \<and> (\<forall>c\<in>set ws2. py_isspace c) \<longrightarrow>
        clean_text_of (ws1 @ ''```json'' @ body @ ''```'' @ ws2) = py_strip body)
   \<and> (clean_text_of t = []
       \<or> (\<not> py_isspace (hd (clean_text_of t)) \<and> \<not> py_isspace (last (clean_text_of t))))"
proof -
  have raw: "fmt \<noteq> ''application/json'' \<longrightarrow>
      parse_and_validate_ai_output w t pn fmt = (JStr t, None, None)"
    by (simp add: parse_and_validate_ai_output_def)
  have ok: "fmt = ''application/json'' \<longrightarrow>
        (\<forall>v. clean_text_of t \<noteq> []
             \<and> json_loads w (case html_unescape w (clean_text_of t) of
                                Some d \<Rightarrow> d | None \<Rightarrow> clean_text_of t) = Inr v
             \<longrightarrow> parse_and_validate_ai_output w t pn fmt = (v, None, None))"
    by (simp add: parse_and_validate_ai_output_def Let_def)
  have bad: "fmt = ''application/json'' \<longrightarrow>
        (clean_text_of t = []
          \<or> (\<exists>e. json_loads w (case html_unescape w (clean_text_of t) of
                                 Some d \<Rightarrow> d | None \<Rightarrow> clean_text_of t) = Inl e)
          \<longrightarrow> (\<exists>msg. msg \<noteq> []
                \<and> parse_and_validate_ai_output w t pn fmt
                    = (JStr t, Some ERROR_PARSING, Some msg)))"
    by (auto simp: parse_and_validate_ai_output_def Let_def split: json_exn.splits)
  have edges: "clean_text_of t = []
       \<or> (\<not> py_isspace (hd (clean_text_of t)) \<and> \<not> py_isspace (last (clean_text_of t)))"
    unfolding clean_text_of_def Let_def by (rule py_strip_edges)
  from raw ok bad edges clean_text_of_fenced [of ws1 ws2 body] show ?thesis
    by blast
qed

lemma example_world_parsers:
  "json_loads (example_world sc) = example_loads"
  "html_unescape (example_world sc) t = Some t"
  by (simp_all add: example_world_def)

text \<open>
  The two examples of the specification: a fenced object parses to the object, and text
  that is no JSON gives the parse error together with the raw text.
\<close>

theorem parse_and_validate_ai_output_cases_witness:
  "parse_and_validate_ai_output (example_world metadata_fails)
     (''```json'' @ nl @ ''{'' @ dq @ ''a'' @ dq @ '':1}'' @ nl @ ''```'') 1 ''application/json''
     = (JObj [(''a'', JInt 1)], None, None)
   \<and> (\<exists>msg. msg \<noteq> []
        \<and> parse_and_validate_ai_output (example_world metadata_fails) ''not json'' 1
             ''application/json'' = (JStr ''not json'', Some ERROR_PARSING, Some msg))
   \<and> parse_and_validate_ai_output (example_world metadata_fails) ''not json'' 1 ''text/plain''
     = (JStr ''not json'', None, None)"
proof -
  let ?w = "example_world metadata_fails"
  let ?fenced = "''```json'' @ nl @ ''{'' @ dq @ ''a'' @ dq @ '':1}'' @ nl @ ''```''"
  have strip_body: "py_strip (nl @ ''{'' @ dq @ ''a'' @ dq @ '':1}'' @ nl)
      = ''{'' @ dq @ ''a'' @ dq @ '':1}''"
    by (simp add: py_strip_def py_isspace_def nl_def dq_def)
  have "clean_text_of ([] @ ''```json'' @ (nl @ ''{'' @ dq @ ''a'' @ dq @ '':1}'' @ nl)
      @ ''```'' @ []) = ''{'' @ dq @ ''a'' @ dq @ '':1}''"
    using parse_and_validate_ai_output_cases [of "''application/json''" ?w ?fenced 1 "[]" "[]"
        "nl @ ''{'' @ dq @ ''a'' @ dq @ '':1}'' @ nl"]
    by (simp only: strip_body) simp
  then have clean1: "clean_text_of ?fenced = ''{'' @ dq @ ''a'' @ dq @ '':1}''"
    by simp
  have loads1: "example_loads (''{'' @ dq @ ''a'' @ dq @ '':1}'') = Inr (JObj [(''a'', JInt 1)])"
    by (simp add: example_loads_def dq_def)
  have clean2: "clean_text_of ''not json'' = ''not json''"
    by (simp add: clean_text_of_def py_strip_def py_isspace_def startswith_def endswith_def)
  have loads2: "example_loads ''not json''
      = Inl (JSONDecodeError ''Expecting value: line 1 column 1 (char 0)'')"
    by (simp add: example_loads_def dq_def)
  have ne1: "''{'' @ dq @ ''a'' @ dq @ '':1}'' \<noteq> []"
    by simp
  from parse_and_validate_ai_output_cases [of "''application/json''" ?w ?fenced 1 "[]" "[]" "[]"]
  have a: "parse_and_validate_ai_output ?w ?fenced 1 ''application/json''
      = (JObj [(''a'', JInt 1)], None, None)"
    by (simp only: clean1 example_world_parsers loads1 option.case) (simp add: ne1)
  from parse_and_validate_ai_output_cases [of "''application/json''" ?w "''not json''" 1
      "[]" "[]" "[]"]
  have b: "\<exists>msg. msg \<noteq> [] \<and> parse_and_validate_ai_output ?w ''not json'' 1 ''application/json''
      = (JStr ''not json'', Some ERROR_PARSING, Some msg)"
    by (simp only: clean2 example_world_parsers loads2 option.case) simp
  from parse_and_validate_ai_output_cases [of "''text/plain''" ?w "''not json''" 1
      "[]" "[]" "[]"]
  have c: "parse_and_validate_ai_output ?w ''not json'' 1 ''text/plain''
      = (JStr ''not json'', None, None)"
    by simp
  from a b c show ?thesis by blast
qed

section \<open>Properties of the per-page unit\<close>


lemma validate_data_simps:
  "validate_data JNull = Inr None"
  "validate_data (JStr x) = Inr (Some (PStr x))"
  "validate_data (JObj kvs) = Inr (Some (PDict kvs))"
  by (simp_all add: validate_data_def)

lemma call_resetdata_openai_api_shape:
  assumes "call_resetdata_openai_api w img prompt config pn key fmt s = ((resp, est, emsg), s1)"
  shows "truthy emsg \<longrightarrow> est = Some ERROR_API"
    and "\<not> truthy emsg \<longrightarrow> resp \<noteq> None"
  using assms
  by (auto simp: call_resetdata_openai_api_def Let_def truthy_def build_resetdata_messages_def
      split: if_splits prod.splits api_outcome.splits option.splits list.splits)

lemma length_empty_response_repr: "take 1000 empty_response_repr = empty_response_repr"
  by (simp add: empty_response_repr_def sq_def)

text \<open>The five ways \<open>_process_single_page\<close> can end.\<close>

lemma process_single_page_branches:
  fixes w :: "'s world"
  obtains
    (image) img_err where
      "process_single_page w t s =
         (new_PageProcessingResult w s (page_num t) ERROR_IMAGE_ENCODING JNull
            (Some (''Failed to encode image: '' @ img_err)) None, s)"
  | (api) s1 emsg where "truthy emsg"
      "process_single_page w t s =
         (new_PageProcessingResult w s1 (page_num t) ERROR_API JNull emsg None, s1)"
  | (empty) s1 where
      "process_single_page w t s =
         (new_PageProcessingResult w s1 (page_num t) ERROR_PARSING JNull
            (Some ''Empty content returned from LLM'') (Some empty_response_repr), s1)"
  | (parse) s1 ans msg where "ans \<noteq> []" "msg \<noteq> []" "output_format t = ''json''"
      "process_single_page w t s =
         (new_PageProcessingResult w s1 (page_num t) ERROR_PARSING (JStr ans) (Some msg)
            (Some (take 1000 ans)), s1)"
  | (success) s1 ans v where "ans \<noteq> []"
      "if output_format t = ''json'' then \<exists>d. json_loads w d = Inr v else v = JStr ans"
      "process_single_page w t s =
         (new_PageProcessingResult w s1 (page_num t) SUCCESS v None None, s1)"
proof -
  obtain b64 img_err where enc: "encode_image_to_base64 w (screenshot_path t) s = (b64, img_err)"
    by (cases "encode_image_to_base64 w (screenshot_path t) s")
  show thesis
  proof (cases "truthy img_err")
    case True
    then obtain e where "img_err = Some e"
      by (auto simp: truthy_def split: option.splits)
    with True enc show thesis
      by (intro image [of e]) (simp add: process_single_page_def fmt_opt_def)
  next
    case no_img: False
    obtain resp est emsg s1 where call:
      "call_resetdata_openai_api w (fmt_opt b64) (prompt_to_use t) (task_config t) (page_num t)
         (llm_api_key t) (output_format t) s = ((resp, est, emsg), s1)"
      by (metis prod_cases3 surj_pair)
    show thesis
    proof (cases "truthy emsg")
      case True
      with call_resetdata_openai_api_shape(1) [OF call] have "est = Some ERROR_API"
        by simp
      with True no_img enc call show thesis
        by (intro api [of emsg s1]) (simp_all add: process_single_page_def)
    next
      case no_err: False
      with call_resetdata_openai_api_shape(2) [OF call] obtain ans where resp: "resp = Some ans"
        by auto
      show thesis
      proof (cases "ans = []")
        case True
        with no_err no_img enc call resp show thesis
          by (intro empty [of s1])
            (simp add: process_single_page_def truthy_def length_empty_response_repr)
      next
        case nonempty: False
        let ?fmt = "if output_format t = ''json'' then ''application/json'' else ''text/plain''"
        from parse_and_validate_shape [of w ans "page_num t" ?fmt]
        show thesis
        proof (elim disjE exE conjE)
          fix v
          assume p: "parse_and_validate_ai_output w ans (page_num t) ?fmt = (v, None, None)"
            and v: "if ?fmt = ''application/json'' then ans \<noteq> [] \<and> (\<exists>d. json_loads w d = Inr v)
                    else v = JStr ans"
          from v have "if output_format t = ''json'' then \<exists>d. json_loads w d = Inr v
              else v = JStr ans"
            by (simp split: if_splits)
          with nonempty show thesis
            using no_err no_img enc call resp p
            by (intro success [of ans v s1])
              (simp_all add: process_single_page_def truthy_def fmt_opt_def)
        next
          fix msg
          assume m: "msg \<noteq> []" and j: "?fmt = ''application/json''"
            and p: "parse_and_validate_ai_output w ans (page_num t) ?fmt
                    = (JStr ans, Some ERROR_PARSING, Some msg)"
          from j have "output_format t = ''json''"
            by (simp split: if_splits)
          with nonempty m show thesis
            using no_err no_img enc call resp p
            by (intro parse [of ans msg s1])
              (simp_all add: process_single_page_def truthy_def fmt_opt_def)
        qed
      qed
    qed
  qed
qed


lemma example_world_page:
  "read_bytes (example_world sc) p s
     = (if p \<in> set s then Inr [0x89, 0x50, 0x4E, 0x47] else Inl FileNotFoundError)"
  "chat_completions_create (example_world sc) req s = (Completion [Some (sc_llm_text sc)], s)"
  "datetime_now_isoformat (example_world sc) s = ''2025-01-01T00:00:10''"
  by (simp_all add: example_world_def)

lemma example_task_fields:
  "page_num (example_task p fmt) = 1" "screenshot_path (example_task p fmt) = p"
  "output_format (example_task p fmt) = fmt" "llm_api_key (example_task p fmt) = ''key''"
  by (simp_all add: example_task_def)

lemma example_page_run:
  assumes "screenshot_path t \<in> set s" and "llm_api_key t \<noteq> []" and "sc_llm_text sc \<noteq> []"
  shows "process_single_page (example_world sc) t s
    = (let (result_data, validation_status, validation_err) =
             parse_and_validate_ai_output (example_world sc) (sc_llm_text sc) (page_num t)
               (if output_format t = ''json'' then ''application/json'' else ''text/plain'')
       in if truthy validation_err then
            new_PageProcessingResult (example_world sc) s (page_num t)
              (case validation_status of Some st \<Rightarrow> st | None \<Rightarrow> ERROR_PARSING)
              result_data validation_err (Some (take 1000 (sc_llm_text sc)))
          else new_PageProcessingResult (example_world sc) s (page_num t) SUCCESS
                 result_data None None,
       s)"
  using assms
  by (simp add: process_single_page_def encode_image_to_base64_def example_world_page
      call_resetdata_openai_api_def build_resetdata_messages_def truthy_def fmt_opt_def
      Let_def split: prod.splits)



text \<open>
  An answer that is the JSON literal \<open>null\<close> passes the check for empty text and parses
  to \<open>None\<close>: the outcome is a success with no payload.
\<close>

lemma process_single_page_null_answer:
  "fst (process_single_page (example_world model_answers_null)
          (example_task example_png1 ''json'') [example_png1])
     = Inr \<lparr> page_number = 1, status = SUCCESS, data = None, error_message = None,
             raw_response = None, processed_at = ''2025-01-01T00:00:10'' \<rparr>"
proof -
  have ans: "sc_llm_text model_answers_null = ''null''"
    by (simp add: model_answers_null_def metadata_fails_def)
  have clean: "clean_text_of ''null'' = ''null''"
    by (simp add: clean_text_of_def py_strip_def py_isspace_def startswith_def endswith_def)
  have parse: "parse_and_validate_ai_output (example_world model_answers_null) ''null'' 1
      ''application/json'' = (JNull, None, None)"
    by (simp add: parse_and_validate_ai_output_def clean example_world_parsers
        example_loads_def)
  show ?thesis
    by (simp add: example_page_run example_task_fields ans parse truthy_def new_PageProcessingResult_def
        validate_data_simps example_world_page)
qed

section \<open>Properties of the page pipeline\<close>

subsection \<open>Tasks that return an outcome\<close>

text \<open>
  A task of the per-page unit can only raise when its result is built from a parsed value
  that is no payload. It returns an outcome when the format is raw text, or when every
  value the parser returns is a dictionary, a string or \<open>None\<close>.
\<close>

lemma new_PageProcessingResult_valid:
  "validate_data d = Inr p \<Longrightarrow>
     \<exists>r. new_PageProcessingResult w s pn st d em rr = Inr r \<and> page_number r = pn"
  by (simp add: new_PageProcessingResult_def)

lemma process_single_page_returns:
  assumes "output_format t \<noteq> ''json''
           \<or> (\<forall>d v. json_loads w d = Inr v \<longrightarrow> (\<exists>p. validate_data v = Inr p))"
  shows "\<exists>r. fst (process_single_page w t s) = Inr r \<and> page_number r = page_num t"
proof (cases rule: process_single_page_branches [of w t s])
  case (image img_err)
  with new_PageProcessingResult_valid [OF validate_data_simps(1)] show ?thesis
    by simp
next
  case (api s1 emsg)
  with new_PageProcessingResult_valid [OF validate_data_simps(1)] show ?thesis
    by simp
next
  case (empty s1)
  with new_PageProcessingResult_valid [OF validate_data_simps(1)] show ?thesis
    by simp
next
  case (parse s1 ans msg)
  with new_PageProcessingResult_valid [OF validate_data_simps(2)] show ?thesis
    by simp
next
  case (success s1 ans v)
  from success(2) assms obtain p where "validate_data v = Inr p"
    by (auto simp: validate_data_simps split: if_splits)
  from new_PageProcessingResult_valid [OF this] success(3) show ?thesis
    by simp
qed

lemma length_run_tasks: "length (fst (run_tasks w ts s)) = length ts"
proof (induction ts arbitrary: s)
  case Nil
  show ?case by simp
next
  case (Cons t ts)
  obtain x s1 where step: "process_single_page w t s = (x, s1)"
    by (cases "process_single_page w t s")
  obtain raw s2 where rest: "run_tasks w ts s1 = (raw, s2)"
    by (cases "run_tasks w ts s1")
  from Cons.IH [of s1] rest have "length raw = length ts"
    by simp
  with step rest show ?case
    by simp
qed

lemma run_tasks_collect:
  assumes "\<forall>t\<in>set ts. output_format t \<noteq> ''json''
           \<or> (\<forall>d v. json_loads w d = Inr v \<longrightarrow> (\<exists>p. validate_data v = Inr p))"
  shows "\<exists>rs. collect_results (fst (run_tasks w ts s)) = Inr rs
              \<and> map page_number rs = map page_num ts"
  using assms
proof (induction ts arbitrary: s)
  case Nil
  then show ?case by simp
next
  case (Cons t ts)
  obtain x s1 where step: "process_single_page w t s = (x, s1)"
    by (cases "process_single_page w t s")
  from Cons.prems have "output_format t \<noteq> ''json''
      \<or> (\<forall>d v. json_loads w d = Inr v \<longrightarrow> (\<exists>p. validate_data v = Inr p))"
    by simp
  from process_single_page_returns [OF this, of s] step
  obtain r where r: "x = Inr r" "page_number r = page_num t"
    by auto
  obtain raw s2 where rest: "run_tasks w ts s1 = (raw, s2)"
    by (cases "run_tasks w ts s1")
  from Cons.IH [of s1] Cons.prems rest
  obtain rs where rs: "collect_results raw = Inr rs" "map page_number rs = map page_num ts"
    by auto
  from step r rest rs show ?case
    by simp
qed

subsection \<open>The task lists\<close>

lemma length_meta_tasks:
  "length (meta_tasks w paths job_dir config key) = min (length paths) MAX_META_PAGES"
  by (simp add: meta_tasks_def Let_def)

lemma nth_meta_tasks:
  assumes "i < min (length paths) MAX_META_PAGES"
  shows "meta_tasks w paths job_dir config key ! i =
     \<lparr> page_num = int i + 1, screenshot_path = paths ! i,
       prompt_to_use = META_PROMPT_TEMPLATE w, output_format = ''json'',
       task_dir = joinpath job_dir ''meta_results'', task_config = config,
       llm_api_key = key \<rparr>"
  using assms by (simp add: meta_tasks_def Let_def)

lemma main_tasks_fields:
  "length (main_tasks paths prompt fmt job_dir config key) = length paths"
  "map page_num (main_tasks paths prompt fmt job_dir config key)
     = map (\<lambda>i. int i + 1) [0..<length paths]"
  "map screenshot_path (main_tasks paths prompt fmt job_dir config key) = paths"
  "\<forall>t\<in>set (main_tasks paths prompt fmt job_dir config key).
     prompt_to_use t = prompt \<and> output_format t = fmt"
proof -
  show "length (main_tasks paths prompt fmt job_dir config key) = length paths"
    by (simp add: main_tasks_def)
  show "map page_num (main_tasks paths prompt fmt job_dir config key)
     = map (\<lambda>i. int i + 1) [0..<length paths]"
    by (rule nth_equalityI) (simp_all add: main_tasks_def nth_enumerate_eq)
  show "map screenshot_path (main_tasks paths prompt fmt job_dir config key) = paths"
    by (rule nth_equalityI) (simp_all add: main_tasks_def nth_enumerate_eq)
  show "\<forall>t\<in>set (main_tasks paths prompt fmt job_dir config key).
     prompt_to_use t = prompt \<and> output_format t = fmt"
    by (auto simp: main_tasks_def)
qed

lemma set_successful_meta_results:
  "d \<in> set (successful_meta_results raw)
     \<longleftrightarrow> (\<exists>r. Inr r \<in> set raw \<and> status r = SUCCESS \<and> data r = Some (PDict d))"
proof (induction raw)
  case Nil
  then show ?case by simp
next
  case (Cons res raw)
  show ?case
  proof (cases "meta_result_dict res")
    case None
    then have "\<not> (\<exists>r. res = Inr r \<and> status r = SUCCESS \<and> data r = Some (PDict d))"
      by (auto simp: meta_result_dict_def)
    with None Cons.IH show ?thesis
      by auto
  next
    case (Some d')
    then obtain r where "res = Inr r" "status r = SUCCESS" "data r = Some (PDict d')"
      by (auto simp: meta_result_dict_def split: sum.splits if_splits option.splits
          payload.splits)
    with Some Cons.IH show ?thesis
      by auto
  qed
qed

subsection \<open>The stages of a job\<close>

lemma extract_pdf_pages_as_png_success:
  "extract_pdf_pages_as_png w pdf d config s = ((True, paths, e), s') \<Longrightarrow> paths \<noteq> []"
  by (auto simp: extract_pdf_pages_as_png_def Let_def split: if_splits option.splits
      prod.splits)

lemma stage_pages_metadata_failure:
  assumes "path_exists w input_file_path s" and "\<not> is_image_input input_file_path"
    and "convert_to_pdf_libreoffice w input_file_path (joinpath job_dir ''converted'') config s
           = ((True, Some pdf, cerr), s1)"
    and "extract_pdf_metadata w pdf config s1 = ((False, mout, merr), s2)"
    and "extract_pdf_pages_as_png w pdf (joinpath job_dir ''screenshots'') config s2
           = ((True, paths, serr), s3)"
  shows "stage_pages w input_file_path job_dir config s
           = (Inr (paths, [''source_type'' \<mapsto> JStr ''document'']), s3)"
  using assms extract_pdf_pages_as_png_success [OF assms(5)]
  by (simp add: stage_pages_def Let_def)

lemma stage_main_pass_returns:
  assumes "fmt \<noteq> ''json''
           \<or> (\<forall>d v. json_loads w d = Inr v \<longrightarrow> (\<exists>p. validate_data v = Inr p))"
  shows "\<exists>r. fst (stage_main_pass w input_file_path paths md user_prompt prompt fmt config key
                 job_dir start s) = Inr r
             \<and> pdf_metadata (summary r) = md
             \<and> source_total_pages (summary r)
                 = (case md ''pages'' of Some v \<Rightarrow> v | None \<Rightarrow> JInt (int (length paths)))
             \<and> map page_number (pages r) = map (\<lambda>i. int i + 1) [0..<length paths]
             \<and> processed_pages_count (summary r) = length paths"
proof -
  let ?ts = "main_tasks paths prompt fmt job_dir config key"
  obtain raw s1 where run: "run_tasks w ?ts s = (raw, s1)"
    by (cases "run_tasks w ?ts s")
  from assms main_tasks_fields(4) [of paths prompt fmt job_dir config key]
  have "\<forall>t\<in>set ?ts. output_format t \<noteq> ''json''
           \<or> (\<forall>d v. json_loads w d = Inr v \<longrightarrow> (\<exists>p. validate_data v = Inr p))"
    by auto
  from run_tasks_collect [OF this, of s] run
  obtain rs where rs: "collect_results raw = Inr rs" "map page_number rs = map page_num ?ts"
    by auto
  then have nums: "map page_number rs = map (\<lambda>i. int i + 1) [0..<length paths]"
    by (simp add: main_tasks_fields)
  then have len: "length rs = length paths"
    by (metis length_map length_upt minus_nat.diff_0)
  have "sorted (map page_number rs)"
    unfolding nums by (simp add: sorted_map sorted_wrt_iff_nth_less)
  then have same: "sort_key page_number rs = rs"
    by (rule sort_key_id_if_sorted)
  let ?r = "aggregate_processing_results (str_int start) (path_name input_file_path) rs md
      user_prompt (timings w s1)"
  from run rs len have res: "fst (stage_main_pass w input_file_path paths md user_prompt prompt
      fmt config key job_dir start s) = Inr ?r"
    by (auto simp: stage_main_pass_def Let_def)
  moreover have "pdf_metadata (summary ?r) = md"
    and "source_total_pages (summary ?r)
           = (case md ''pages'' of Some v \<Rightarrow> v | None \<Rightarrow> JInt (int (length paths)))"
    by (simp_all add: aggregate_metadata len cong: option.case_cong)
  moreover have "map page_number (pages ?r) = map (\<lambda>i. int i + 1) [0..<length paths]"
    by (simp add: aggregate_pages same nums)
  moreover have "processed_pages_count (summary ?r) = length paths"
    by (simp add: aggregate_counts(4) len)
  ultimately show ?thesis
    by blast
qed

lemma process_document_stateless_stages:
  assumes "stage_pages w input_file_path job_dir config s = (Inr (paths, md), s1)"
    and "\<not> is_image_input input_file_path"
  shows "process_document_stateless w input_file_path user_prompt fmt False config key job_dir s
           = stage_main_pass w input_file_path paths md user_prompt user_prompt fmt config key
               job_dir (time_seconds w s) s1"
    and "process_document_stateless w input_file_path user_prompt fmt True config key job_dir s
           = stage_main_pass w input_file_path paths md user_prompt
               (final_user_prompt_of
                  (meta_context_of w
                     (successful_meta_results
                        (fst (run_tasks w (meta_tasks w paths job_dir config key) s1))))
                  user_prompt)
               fmt config key job_dir (time_seconds w s)
               (snd (run_tasks w (meta_tasks w paths job_dir config key) s1))"
  using assms
  by (simp_all add: process_document_stateless_def stage_meta_pass_def final_user_prompt_of_def
      Let_def split: prod.splits)


subsection \<open>The concrete environment\<close>

lemma example_world_files:
  "path_exists (example_world sc) p s = (p \<in> set s)"
  "mkdir_parents (example_world sc) p s = (None, s)"
  by (simp_all add: example_world_def)

lemma example_is_document: "\<not> is_image_input example_input"
  by (simp add: is_image_input_def example_input_def path_suffix_def path_name_def
      rfind_dot_def py_lower_def py_lower_char_def image_extensions_def Let_def)

lemma example_convert:
  assumes "sc_convert_rc sc = 0" and "sc_convert_writes sc"
  shows "convert_to_pdf_libreoffice (example_world sc) example_input
           (joinpath example_job_dir ''converted'') example_config [example_input]
         = ((True, Some example_pdf, []), [example_pdf, example_input])"
  using assms
  by (simp add: convert_to_pdf_libreoffice_def Let_def example_world_files
      example_run_libreoffice example_output_pdf_path)

lemma example_metadata:
  assumes "sc_pdfinfo_rc sc = 1"
  shows "extract_pdf_metadata (example_world sc) example_pdf example_config
           [example_pdf, example_input]
         = ((False, ''Pages: 2'',
             ''Metadata extraction failed: pdfinfo exited with code 1. Stdout: Pages: 2''),
            [example_pdf, example_input])"
proof -
  have run: "run_subprocess_async (example_world sc) [''pdfinfo'', path_str example_pdf] s
      = ((1, ''Pages: 2'', []), s)" for s
    using assms
    by (simp add: run_subprocess_async_def example_world_def example_exec_def py_strip_def
        py_isspace_def)
  have one: "str_int 1 = ''1''"
    by (simp add: str_int_def str_nat.simps digit_char_def)
  show ?thesis
    by (simp add: extract_pdf_metadata_def Let_def example_world_files example_config_def run
        one py_strip_def py_isspace_def)
qed

text \<open>
  In the structured format an answer that is a JSON list makes the task raise: the parsed
  list is no payload.
\<close>

lemma example_list_answer_raises:
  assumes "screenshot_path t \<in> set s" and "llm_api_key t \<noteq> []"
    and "output_format t = ''json''"
  shows "process_single_page (example_world model_answers_list) t s
    = (Inl (ValidationError ''1 validation error for PageProcessingResult''), s)"
proof -
  have ans: "sc_llm_text model_answers_list = ''[1]''"
    by (simp add: model_answers_list_def metadata_fails_def)
  have clean: "clean_text_of ''[1]'' = ''[1]''"
    by (simp add: clean_text_of_def py_strip_def py_isspace_def startswith_def endswith_def)
  have parse: "parse_and_validate_ai_output (example_world model_answers_list) ''[1]'' n
      ''application/json'' = (JList [JInt 1], None, None)" for n
    by (simp add: parse_and_validate_ai_output_def clean example_world_parsers
        example_loads_def dq_def)
  from assms show ?thesis
    by (simp add: example_page_run ans parse truthy_def new_PageProcessingResult_def
        validate_data_def)
qed

subsection \<open>Metadata extraction that fails\<close>




subsection \<open>The context pre-pass\<close>

text \<open>
  Claim C6. For a document input with the context pre-pass requested, the tasks of the
  pre-pass are the per-page unit on the first \<open>min(pageCount, 3)\<close> pages and on no other
  page: task \<open>i\<close> has page number \<open>i + 1\<close>, the \<open>i\<close>-th rendered page, the fixed
  meta-prompt template as its prompt and the structured format. Of what the tasks give
  back, a value is kept exactly when it is the dictionary of a result with status
  success; a task that raised and a result of any other kind are left out. Whatever the
  tasks gave back, the job goes on with the main pass, whose prompt is built from the kept
  values; when none is kept, the main pass runs with the user prompt unchanged. When no
  task of the main pass raises, the job returns a result with one page per rendered page.
\<close>

theorem meta_pass_scans_first_pages:
  "length (meta_tasks w paths job_dir config key) = min (length paths) 3
   \<and> (\<forall>i < min (length paths) 3.
         page_num (meta_tasks w paths job_dir config key ! i) = int i + 1
       \<and> screenshot_path (meta_tasks w paths job_dir config key ! i) = paths ! i
       \<and> prompt_to_use (meta_tasks w paths job_dir config key ! i) = META_PROMPT_TEMPLATE w
       \<and> output_format (meta_tasks w paths job_dir config key ! i) = ''json'')
   \<and> (\<forall>d. d \<in> set (successful_meta_results raw)
          \<longleftrightarrow> (\<exists>r. Inr r \<in> set raw \<and> status r = SUCCESS \<and> data r = Some (PDict d)))
   \<and> (stage_pages w input_file_path job_dir config s = (Inr (paths, md), s1)
        \<and> \<not> is_image_input input_file_path \<longrightarrow>
          process_document_stateless w input_file_path user_prompt fmt True config key job_dir s
            = stage_main_pass w input_file_path paths md user_prompt
                (final_user_prompt_of
                   (meta_context_of w
                      (successful_meta_results
                         (fst (run_tasks w (meta_tasks w paths job_dir config key) s1))))
                   user_prompt)
                fmt config key job_dir (time_seconds w s)
                (snd (run_tasks w (meta_tasks w paths job_dir config key) s1))
        \<and> (successful_meta_results
               (fst (run_tasks w (meta_tasks w paths job_dir config key) s1)) = [] \<longrightarrow>
             process_document_stateless w input_file_path user_prompt fmt True config key
               job_dir s
             = stage_main_pass w input_file_path paths md user_prompt user_prompt fmt config
                 key job_dir (time_seconds w s)
                 (snd (run_tasks w (meta_tasks w paths job_dir config key) s1)))
        \<and> (fmt \<noteq> ''json''
            \<or> (\<forall>d v. json_loads w d = Inr v \<longrightarrow> (\<exists>p. validate_data v = Inr p)) \<longrightarrow>
             (\<exists>r. fst (process_document_stateless w input_file_path user_prompt fmt True
                          config key job_dir s) = Inr r
                  \<and> map page_number (pages r) = map (\<lambda>i. int i + 1) [0..<length paths])))"
proof -
  let ?tasks = "meta_tasks w paths job_dir config key"
  let ?run = "run_tasks w ?tasks s1"
  have len: "length ?tasks = min (length paths) 3"
    by (simp add: length_meta_tasks MAX_META_PAGES_def)
  have each: "\<forall>i < min (length paths) 3.
         page_num (?tasks ! i) = int i + 1 \<and> screenshot_path (?tasks ! i) = paths ! i
       \<and> prompt_to_use (?tasks ! i) = META_PROMPT_TEMPLATE w
       \<and> output_format (?tasks ! i) = ''json''"
    by (simp add: nth_meta_tasks MAX_META_PAGES_def)
  have kept: "\<forall>d. d \<in> set (successful_meta_results raw)
          \<longleftrightarrow> (\<exists>r. Inr r \<in> set raw \<and> status r = SUCCESS \<and> data r = Some (PDict d))"
    by (simp add: set_successful_meta_results)
  have job: "process_document_stateless w input_file_path user_prompt fmt True config key
        job_dir s
      = stage_main_pass w input_file_path paths md user_prompt
          (final_user_prompt_of (meta_context_of w (successful_meta_results (fst ?run)))
             user_prompt)
          fmt config key job_dir (time_seconds w s) (snd ?run)"
    if "stage_pages w input_file_path job_dir config s = (Inr (paths, md), s1)"
      and "\<not> is_image_input input_file_path"
    using that by (rule process_document_stateless_stages(2))
  have unchanged: "final_user_prompt_of (meta_context_of w (successful_meta_results (fst ?run)))
      user_prompt = user_prompt"
    if "successful_meta_results (fst ?run) = []"
    using that by (simp add: meta_context_of_def final_user_prompt_of_def)
  have returns: "\<exists>r. fst (process_document_stateless w input_file_path user_prompt fmt True
        config key job_dir s) = Inr r
      \<and> map page_number (pages r) = map (\<lambda>i. int i + 1) [0..<length paths]"
    if "stage_pages w input_file_path job_dir config s = (Inr (paths, md), s1)"
      and "\<not> is_image_input input_file_path"
      and ok: "fmt \<noteq> ''json''
        \<or> (\<forall>d v. json_loads w d = Inr v \<longrightarrow> (\<exists>p. validate_data v = Inr p))"
    using stage_main_pass_returns [OF ok, of input_file_path paths md user_prompt
        "final_user_prompt_of (meta_context_of w (successful_meta_results (fst ?run)))
           user_prompt" config key job_dir "time_seconds w s" "snd ?run"]
    by (simp only: job [OF that(1,2)]) blast
  from len each kept job unchanged returns show ?thesis
    by (intro conjI impI; (elim conjE)?) simp_all
qed

text \<open>
  Two rendered pages and a model that answers a JSON list: both tasks of the pre-pass
  raise, and the job, which asks for raw text, returns its two pages all the same.
\<close>

theorem meta_pass_scans_first_pages_witness:
  "length (meta_tasks (example_world model_answers_list) [example_png1, example_png2]
             example_job_dir example_config ''key'') = 2
   \<and> fst (run_tasks (example_world model_answers_list)
             (meta_tasks (example_world model_answers_list) [example_png1, example_png2]
                example_job_dir example_config ''key'')
             [example_png2, example_png1, example_pdf, example_input])
       = [Inl (ValidationError ''1 validation error for PageProcessingResult''),
          Inl (ValidationError ''1 validation error for PageProcessingResult'')]
   \<and> (\<exists>r. fst (process_document_stateless (example_world model_answers_list) example_input
                 ''Extract the summary.'' ''text'' True example_config ''key''
                 example_job_dir [example_input]) = Inr r
          \<and> map page_number (pages r) = [1, 2])"
proof -
  let ?w = "example_world model_answers_list"
  let ?s3 = "[example_png2, example_png1, example_pdf, example_input]"
  let ?md = "[''source_type'' \<mapsto> JStr ''document'']"
  have sc: "sc_convert_rc model_answers_list = 0" "sc_convert_writes model_answers_list"
    "sc_pdfinfo_rc model_answers_list = 1" "sc_pdftoppm_rc model_answers_list = 1"
    "sc_pdftoppm_files model_answers_list = [example_png2, example_png1]"
    by (simp_all add: model_answers_list_def metadata_fails_def)
  have ex: "path_exists ?w example_input [example_input]"
    by (simp add: example_world_files)
  have st: "stage_pages ?w example_input example_job_dir example_config [example_input]
      = (Inr ([example_png1, example_png2], ?md), ?s3)"
    using ex example_is_document example_convert [OF sc(1,2)] example_metadata [OF sc(3)]
      example_extract_pages [OF sc(4,5)]
    by (rule stage_pages_metadata_failure)
  have tasks: "meta_tasks ?w [example_png1, example_png2] example_job_dir example_config ''key''
      = [\<lparr> page_num = 1, screenshot_path = example_png1,
           prompt_to_use = META_PROMPT_TEMPLATE ?w, output_format = ''json'',
           task_dir = joinpath example_job_dir ''meta_results'', task_config = example_config,
           llm_api_key = ''key'' \<rparr>,
         \<lparr> page_num = 2, screenshot_path = example_png2,
           prompt_to_use = META_PROMPT_TEMPLATE ?w, output_format = ''json'',
           task_dir = joinpath example_job_dir ''meta_results'', task_config = example_config,
           llm_api_key = ''key'' \<rparr>]"
    by (simp add: meta_tasks_def MAX_META_PAGES_def Let_def upt_rec)
  have run: "fst (run_tasks ?w
        (meta_tasks ?w [example_png1, example_png2] example_job_dir example_config ''key'') ?s3)
      = [Inl (ValidationError ''1 validation error for PageProcessingResult''),
         Inl (ValidationError ''1 validation error for PageProcessingResult'')]"
    by (simp add: tasks example_list_answer_raises)
  note claim = meta_pass_scans_first_pages [of ?w "[example_png1, example_png2]"
      example_job_dir example_config "''key''" "[]" example_input "[example_input]" ?md ?s3
      "''Extract the summary.''" "''text''"]
  from claim [THEN conjunct1]
  have len: "length (meta_tasks ?w [example_png1, example_png2] example_job_dir example_config
      ''key'') = 2"
    by simp
  from claim [THEN conjunct2, THEN conjunct2, THEN conjunct2] st example_is_document
  have "''text'' \<noteq> ''json''
        \<or> (\<forall>d v. json_loads ?w d = Inr v \<longrightarrow> (\<exists>p. validate_data v = Inr p)) \<longrightarrow>
      (\<exists>r. fst (process_document_stateless ?w example_input ''Extract the summary.''
          ''text'' True example_config ''key'' example_job_dir [example_input]) = Inr r
        \<and> map page_number (pages r)
            = map (\<lambda>i. int i + 1) [0..<length [example_png1, example_png2]])"
    by blast
  then have job: "\<exists>r. fst (process_document_stateless ?w example_input
        ''Extract the summary.'' ''text'' True example_config ''key'' example_job_dir
        [example_input]) = Inr r
      \<and> map page_number (pages r) = [1, 2]"
    by (simp add: upt_rec)
  from len run job show ?thesis
    by blast
qed

end
